theory Spec2Isabelle
  imports Complex_Main "HOL-Library.Log_Nat"
begin

section \<open>Numbers and objects\<close>

text \<open>
  A TypeScript \<open>number\<close> is an IEEE 754 double: \<open>NaN\<close>, the two infinities, minus zero,
  or a finite value \<open>Num r\<close> (\<open>Num 0\<close> is plus zero). Every arithmetic operation gives
  the exact result rounded to the nearest double, ties to the even significand.

  \<open>binade r\<close> is the exponent \<open>e\<close> with \<open>2^e \<le> |r| < 2^(e+1)\<close>. A double in that
  binade is a whole multiple of \<open>2^(e - 52)\<close>; below \<open>2^(-1022)\<close> the spacing stays
  \<open>2^(-1074)\<close>. \<open>rnd r\<close> is the nearest such multiple. A rounded value of size
  \<open>2^1024\<close> or more is an infinity.

  \<open>Num r\<close> is a value of the program when \<open>r\<close> is a double, that is \<open>rnd r = r\<close> and
  \<open>|r| < 2^1024\<close>; every whole number up to \<open>2^53\<close> is one, and the operations below
  give no other. A decimal literal is the double nearest to it: \<open>0.1\<close> is
  \<open>round_result (1 / 10)\<close>, not \<open>Num (1 / 10)\<close>.
\<close>

datatype number = NaN | Infinity | MinusInfinity | MinusZero | Num real

definition pow2 :: "int \<Rightarrow> real" where
  "pow2 e = (if 0 \<le> e then 2 ^ nat e else 1 / 2 ^ nat (- e))"

definition binade :: "real \<Rightarrow> int" where
  "binade r =
     (if 1 \<le> \<bar>r\<bar> then bitlen \<lfloor>\<bar>r\<bar>\<rfloor> - 1 else - bitlen (\<lceil>1 / \<bar>r\<bar>\<rceil> - 1))"

definition round_half_even :: "real \<Rightarrow> int" where
  "round_half_even t =
     (if t - of_int \<lfloor>t\<rfloor> < 1 / 2 then \<lfloor>t\<rfloor>
      else if 1 / 2 < t - of_int \<lfloor>t\<rfloor> then \<lfloor>t\<rfloor> + 1
      else if even \<lfloor>t\<rfloor> then \<lfloor>t\<rfloor>
      else \<lfloor>t\<rfloor> + 1)"

definition rnd :: "real \<Rightarrow> real" where
  "rnd r =
     (if r = 0 then 0
      else of_int (round_half_even (r / pow2 (max (binade r) (- 1022) - 52))) *
           pow2 (max (binade r) (- 1022) - 52))"

fun is_finite :: "number \<Rightarrow> bool" where
  "is_finite (Num r) = True"
| "is_finite MinusZero = True"
| "is_finite NaN = False"
| "is_finite Infinity = False"
| "is_finite MinusInfinity = False"

text \<open>The value of a finite number; both zeros have the value 0.\<close>

fun value_of :: "number \<Rightarrow> real" where
  "value_of (Num r) = r"
| "value_of MinusZero = 0"
| "value_of NaN = 0"
| "value_of Infinity = 0"
| "value_of MinusInfinity = 0"

fun negative :: "number \<Rightarrow> bool" where
  "negative (Num r) = (r < 0)"
| "negative MinusZero = True"
| "negative MinusInfinity = True"
| "negative NaN = False"
| "negative Infinity = False"

definition is_zero :: "number \<Rightarrow> bool" where
  "is_zero a = (a = MinusZero \<or> a = Num 0)"

definition is_infinite :: "number \<Rightarrow> bool" where
  "is_infinite a = (a = Infinity \<or> a = MinusInfinity)"

definition zero_of :: "bool \<Rightarrow> number" where
  "zero_of neg = (if neg then MinusZero else Num 0)"

definition infinity_of :: "bool \<Rightarrow> number" where
  "infinity_of neg = (if neg then MinusInfinity else Infinity)"

text \<open>The double for a non-zero exact result \<open>r\<close>: overflow and underflow keep its sign.\<close>

definition round_result :: "real \<Rightarrow> number" where
  "round_result r =
     (if 2 ^ 1024 \<le> \<bar>rnd r\<bar> then infinity_of (r < 0)
      else if rnd r = 0 then zero_of (r < 0)
      else Num (rnd r))"

text \<open>Unary minus, \<open>+\<close>, \<open>-\<close>, \<open>*\<close> and \<open>/\<close>.\<close>

fun js_neg :: "number \<Rightarrow> number" where
  "js_neg NaN = NaN"
| "js_neg Infinity = MinusInfinity"
| "js_neg MinusInfinity = Infinity"
| "js_neg MinusZero = Num 0"
| "js_neg (Num r) = (if r = 0 then MinusZero else Num (- r))"

definition js_add :: "number \<Rightarrow> number \<Rightarrow> number" where
  "js_add a b =
     (if a = NaN \<or> b = NaN then NaN
      else if is_infinite a then (if is_infinite b \<and> a \<noteq> b then NaN else a)
      else if is_infinite b then b
      else if is_zero a \<and> is_zero b
        then (if a = MinusZero \<and> b = MinusZero then MinusZero else Num 0)
      else if value_of a + value_of b = 0 then Num 0
      else round_result (value_of a + value_of b))"

definition js_sub :: "number \<Rightarrow> number \<Rightarrow> number" where
  "js_sub a b = js_add a (js_neg b)"

definition js_mul :: "number \<Rightarrow> number \<Rightarrow> number" where
  "js_mul a b =
     (if a = NaN \<or> b = NaN then NaN
      else if (is_infinite a \<and> is_zero b) \<or> (is_zero a \<and> is_infinite b) then NaN
      else if is_infinite a \<or> is_infinite b then infinity_of (negative a \<noteq> negative b)
      else if is_zero a \<or> is_zero b then zero_of (negative a \<noteq> negative b)
      else round_result (value_of a * value_of b))"

definition js_divide :: "number \<Rightarrow> number \<Rightarrow> number" where
  "js_divide a b =
     (if a = NaN \<or> b = NaN then NaN
      else if (is_infinite a \<and> is_infinite b) \<or> (is_zero a \<and> is_zero b) then NaN
      else if is_infinite a \<or> is_zero b then infinity_of (negative a \<noteq> negative b)
      else if is_infinite b \<or> is_zero a then zero_of (negative a \<noteq> negative b)
      else round_result (value_of a / value_of b))"

text \<open>
  The comparisons \<open><\<close>, \<open>>\<close>, \<open><=\<close>, \<open>===\<close> and \<open>!==\<close>: every comparison with \<open>NaN\<close> is
  false except \<open>!==\<close>, and the two zeros are equal.
\<close>

definition js_less :: "number \<Rightarrow> number \<Rightarrow> bool" where
  "js_less a b =
     (if a = NaN \<or> b = NaN then False
      else if a = Infinity \<or> b = MinusInfinity then False
      else if a = MinusInfinity \<or> b = Infinity then True
      else value_of a < value_of b)"

definition js_greater :: "number \<Rightarrow> number \<Rightarrow> bool" where
  "js_greater a b = js_less b a"

definition strict_equal :: "number \<Rightarrow> number \<Rightarrow> bool" where
  "strict_equal a b = (a \<noteq> NaN \<and> b \<noteq> NaN \<and> (a = b \<or> (is_zero a \<and> is_zero b)))"

definition strict_not_equal :: "number \<Rightarrow> number \<Rightarrow> bool" where
  "strict_not_equal a b = (\<not> strict_equal a b)"

definition js_less_equal :: "number \<Rightarrow> number \<Rightarrow> bool" where
  "js_less_equal a b = (js_less a b \<or> strict_equal a b)"

text \<open>
  \<open>Math.max\<close> and \<open>Math.min\<close> of two numbers: \<open>NaN\<close> if either is; plus zero is the
  larger of the two zeros.
\<close>

definition Math_max :: "number \<Rightarrow> number \<Rightarrow> number" where
  "Math_max a b =
     (if a = NaN \<or> b = NaN then NaN
      else if js_less a b then b
      else if js_less b a then a
      else if a = MinusZero then b
      else a)"

definition Math_min :: "number \<Rightarrow> number \<Rightarrow> number" where
  "Math_min a b =
     (if a = NaN \<or> b = NaN then NaN
      else if js_less a b then a
      else if js_less b a then b
      else if a = MinusZero then a
      else b)"

text \<open>
  A whole number that the browser holds as an \<open>unsigned long\<close> or an
  \<open>unsigned long long\<close> (a natural size, an offset size, a blob size), read as a number:
  the nearest double.
\<close>

definition number_of_nat :: "nat \<Rightarrow> number" where
  "number_of_nat n = (if n = 0 then Num 0 else round_result (real n))"

text \<open>
  Objects that the code shares by reference live in a store: a cell per reference and a
  counter of the references handed out so far. An object literal takes the next
  reference.
\<close>

section \<open>Crop engine (CropManager)\<close>

record CropSettings =
  x :: number
  y :: number
  width :: number
  height :: number
  enabled :: bool

text \<open>\<open>Partial<CropSettings>\<close>: every field may be absent.\<close>

record PartialCropSettings =
  x_opt :: "number option"
  y_opt :: "number option"
  width_opt :: "number option"
  height_opt :: "number option"
  enabled_opt :: "bool option"

type_synonym ref = nat

record heap =
  cells :: "ref \<Rightarrow> CropSettings"
  next_ref :: ref

record CropManager =
  cropSettings :: ref

definition new_object :: "CropSettings \<Rightarrow> heap \<Rightarrow> ref \<times> heap" where
  "new_object v h =
     (next_ref h, h\<lparr>cells := (cells h)(next_ref h := v), next_ref := Suc (next_ref h)\<rparr>)"

text \<open>A write through a reference: \<open>obj.field = ...\<close> on the object at \<open>r\<close>.\<close>

definition assign :: "ref \<Rightarrow> (CropSettings \<Rightarrow> CropSettings) \<Rightarrow> heap \<Rightarrow> heap" where
  "assign r f h = h\<lparr>cells := (cells h)(r := f (cells h r))\<rparr>"

text \<open>The spread \<open>{ ...s, ...p }\<close>: the fields of \<open>s\<close>, overwritten by those \<open>p\<close> has.\<close>

definition spread :: "CropSettings \<Rightarrow> PartialCropSettings \<Rightarrow> CropSettings" where
  "spread s p =
     \<lparr>x = (case x_opt p of Some v \<Rightarrow> v | None \<Rightarrow> x s),
      y = (case y_opt p of Some v \<Rightarrow> v | None \<Rightarrow> y s),
      width = (case width_opt p of Some v \<Rightarrow> v | None \<Rightarrow> width s),
      height = (case height_opt p of Some v \<Rightarrow> v | None \<Rightarrow> height s),
      enabled = (case enabled_opt p of Some v \<Rightarrow> v | None \<Rightarrow> enabled s)\<rparr>"

definition no_fields :: PartialCropSettings where
  "no_fields = \<lparr>x_opt = None, y_opt = None, width_opt = None, height_opt = None,
                 enabled_opt = None\<rparr>"

definition all_fields :: "CropSettings \<Rightarrow> PartialCropSettings" where
  "all_fields s = \<lparr>x_opt = Some (x s), y_opt = Some (y s), width_opt = Some (width s),
                    height_opt = Some (height s), enabled_opt = Some (enabled s)\<rparr>"

definition initial_settings :: CropSettings where
  "initial_settings = \<lparr>x = Num 0, y = Num 0, width = Num 100, height = Num 100, enabled = False\<rparr>"

text \<open>\<open>new CropManager()\<close>: the field initialiser allocates the settings object.\<close>

definition new_CropManager :: "heap \<Rightarrow> CropManager \<times> heap" where
  "new_CropManager h =
     (let (r, h') = new_object initial_settings h in (\<lparr>cropSettings = r\<rparr>, h'))"

definition this_cropSettings :: "CropManager \<Rightarrow> heap \<Rightarrow> CropSettings" where
  "this_cropSettings this h = cells h (cropSettings this)"

definition setCropSettings ::
  "CropManager \<Rightarrow> PartialCropSettings \<Rightarrow> heap \<Rightarrow> CropManager \<times> heap" where
  "setCropSettings this settings h =
     (let (r, h') = new_object (spread (this_cropSettings this h) settings) h
      in (this\<lparr>cropSettings := r\<rparr>, h'))"

definition getCropSettings :: "CropManager \<Rightarrow> heap \<Rightarrow> ref \<times> heap" where
  "getCropSettings this h = new_object (spread (this_cropSettings this h) no_fields) h"

definition resetCrop :: "CropManager \<Rightarrow> heap \<Rightarrow> CropManager \<times> heap" where
  "resetCrop this h =
     (let (r, h') = new_object \<lparr>x = Num 0, y = Num 0, width = Num 100, height = Num 100, enabled = False\<rparr> h
      in (this\<lparr>cropSettings := r\<rparr>, h'))"

text \<open>A manager is well formed in a store when its settings object has been allocated.\<close>

definition allocated :: "CropManager \<Rightarrow> heap \<Rightarrow> bool" where
  "allocated this h = (cropSettings this < next_ref h)"

definition empty_heap :: heap where
  "empty_heap = \<lparr>cells = (\<lambda>_. initial_settings), next_ref = 0\<rparr>"

subsection \<open>Pointer interaction (addCropInteractivity)\<close>

text \<open>
  The variables the three listeners close over. \<open>mousedown\<close> on the crop box records
  the pointer position and the rectangle; each \<open>mousemove\<close> recomputes the rectangle
  from those start values and the distance moved since \<open>mousedown\<close>.
\<close>

record DragState =
  isDragging :: bool
  isResizing :: bool
  currentHandle :: string
  startX :: number
  startY :: number
  startCropX :: number
  startCropY :: number
  startCropWidth :: number
  startCropHeight :: number

definition initial_DragState :: DragState where
  "initial_DragState =
     \<lparr>isDragging = False, isResizing = False, currentHandle = [],
      startX = Num 0, startY = Num 0, startCropX = Num 0, startCropY = Num 0,
      startCropWidth = Num 0, startCropHeight = Num 0\<rparr>"

text \<open>
  The target of a \<open>mousedown\<close> on the crop box: one of its handle elements, with the
  value of \<open>dataset.handle\<close>, or any other part of the box.
\<close>

datatype mouse_target = CropHandle string | CropBoxBody

definition mousedown ::
  "DragState \<Rightarrow> CropManager \<Rightarrow> heap \<Rightarrow> mouse_target \<Rightarrow> number \<Rightarrow> number \<Rightarrow> DragState" where
  "mousedown d this h target clientX clientY =
     (let d1 = (case target of
                  CropHandle name \<Rightarrow> d\<lparr>isResizing := True, currentHandle := name\<rparr>
                | CropBoxBody \<Rightarrow> d\<lparr>isDragging := True\<rparr>)
      in d1\<lparr>startX := clientX, startY := clientY,
             startCropX := x (this_cropSettings this h),
             startCropY := y (this_cropSettings this h),
             startCropWidth := width (this_cropSettings this h),
             startCropHeight := height (this_cropSettings this h)\<rparr>)"

definition mouseup :: "DragState \<Rightarrow> DragState" where
  "mouseup d = d\<lparr>isDragging := False, isResizing := False, currentHandle := []\<rparr>"

text \<open>The \<open>switch (currentHandle)\<close> of the resize branch, on a copy of the settings.\<close>

definition resize ::
  "DragState \<Rightarrow> number \<Rightarrow> number \<Rightarrow> CropSettings \<Rightarrow> CropSettings" where
  "resize d deltaXPercent deltaYPercent newSettings =
     (if currentHandle d = ''se'' then
        newSettings\<lparr>
          width := Math_max (Num 10)
                     (Math_min (js_sub (Num 100) (startCropX d))
                        (js_add (startCropWidth d) deltaXPercent)),
          height := Math_max (Num 10)
                      (Math_min (js_sub (Num 100) (startCropY d))
                         (js_add (startCropHeight d) deltaYPercent))\<rparr>
      else if currentHandle d = ''nw'' then
        (let newWidth = Math_max (Num 10) (js_sub (startCropWidth d) deltaXPercent);
             newHeight = Math_max (Num 10) (js_sub (startCropHeight d) deltaYPercent)
         in newSettings\<lparr>
              x := Math_max (Num 0)
                     (js_add (startCropX d) (js_sub (startCropWidth d) newWidth)),
              y := Math_max (Num 0)
                     (js_add (startCropY d) (js_sub (startCropHeight d) newHeight)),
              width := newWidth,
              height := newHeight\<rparr>)
      else if currentHandle d = ''ne'' then
        (let newHeightNE = Math_max (Num 10) (js_sub (startCropHeight d) deltaYPercent)
         in newSettings\<lparr>
              width := Math_max (Num 10)
                         (Math_min (js_sub (Num 100) (startCropX d))
                            (js_add (startCropWidth d) deltaXPercent)),
              y := Math_max (Num 0)
                     (js_add (startCropY d) (js_sub (startCropHeight d) newHeightNE)),
              height := newHeightNE\<rparr>)
      else if currentHandle d = ''sw'' then
        (let newWidthSW = Math_max (Num 10) (js_sub (startCropWidth d) deltaXPercent)
         in newSettings\<lparr>
              x := Math_max (Num 0)
                     (js_add (startCropX d) (js_sub (startCropWidth d) newWidthSW)),
              width := newWidthSW,
              height := Math_max (Num 10)
                          (Math_min (js_sub (Num 100) (startCropY d))
                             (js_add (startCropHeight d) deltaYPercent))\<rparr>)
      else if currentHandle d = ''n'' then
        (let newHeightN = Math_max (Num 10) (js_sub (startCropHeight d) deltaYPercent)
         in newSettings\<lparr>
              y := Math_max (Num 0)
                     (js_add (startCropY d) (js_sub (startCropHeight d) newHeightN)),
              height := newHeightN\<rparr>)
      else if currentHandle d = ''s'' then
        newSettings\<lparr>
          height := Math_max (Num 10)
                      (Math_min (js_sub (Num 100) (startCropY d))
                         (js_add (startCropHeight d) deltaYPercent))\<rparr>
      else if currentHandle d = ''w'' then
        (let newWidthW = Math_max (Num 10) (js_sub (startCropWidth d) deltaXPercent)
         in newSettings\<lparr>
              x := Math_max (Num 0)
                     (js_add (startCropX d) (js_sub (startCropWidth d) newWidthW)),
              width := newWidthW\<rparr>)
      else if currentHandle d = ''e'' then
        newSettings\<lparr>
          width := Math_max (Num 10)
                     (Math_min (js_sub (Num 100) (startCropX d))
                        (js_add (startCropWidth d) deltaXPercent))\<rparr>
      else newSettings)"

text \<open>
  What one \<open>mousemove\<close> does: nothing when no drag or resize is under way; otherwise it
  replaces the settings and dispatches \<open>cropUpdate\<close> with the manager's settings object
  as its detail. \<open>imageWidth\<close> and \<open>imageHeight\<close> are the preview's \<open>offsetWidth\<close> and
  \<open>offsetHeight\<close>, whole numbers of pixels; when one of them is zero the percentage is
  \<open>NaN\<close> or an infinity and the handler goes on with it.
\<close>

datatype move_outcome =
  Ignored
  | Updated CropManager heap ref

definition mousemove ::
  "DragState \<Rightarrow> CropManager \<Rightarrow> heap \<Rightarrow> number \<Rightarrow> number \<Rightarrow> nat \<Rightarrow> nat \<Rightarrow> move_outcome" where
  "mousemove d this h clientX clientY imageWidth imageHeight =
     (if \<not> isDragging d \<and> \<not> isResizing d then Ignored
      else
        (let deltaX = js_sub clientX (startX d);
             deltaY = js_sub clientY (startY d);
             deltaXPercent = js_mul (js_divide deltaX (number_of_nat imageWidth)) (Num 100);
             deltaYPercent = js_mul (js_divide deltaY (number_of_nat imageHeight)) (Num 100);
             (this', h') =
               (if isDragging d then
                  (let newX = Math_max (Num 0)
                                (Math_min (js_sub (Num 100) (width (this_cropSettings this h)))
                                   (js_add (startCropX d) deltaXPercent));
                       newY = Math_max (Num 0)
                                (Math_min (js_sub (Num 100) (height (this_cropSettings this h)))
                                   (js_add (startCropY d) deltaYPercent))
                   in setCropSettings this
                        (no_fields\<lparr>x_opt := Some newX, y_opt := Some newY\<rparr>) h)
                else if isResizing d then
                  (let newSettings = spread (this_cropSettings this h) no_fields
                   in setCropSettings this
                        (all_fields (resize d deltaXPercent deltaYPercent newSettings)) h)
                else (this, h))
         in Updated this' h' (cropSettings this')))"

text \<open>
  The bounds the data model asks of a crop rectangle: finite values with \<open>0 \<le> x\<close>,
  \<open>0 \<le> y\<close>, \<open>10 \<le> width\<close>, \<open>10 \<le> height\<close>, \<open>x + width \<le> 100\<close> and
  \<open>y + height \<le> 100\<close>.
\<close>

definition within_bounds :: "CropSettings \<Rightarrow> bool" where
  "within_bounds s =
     (is_finite (x s) \<and> is_finite (y s) \<and> is_finite (width s) \<and> is_finite (height s) \<and>
      0 \<le> value_of (x s) \<and> 0 \<le> value_of (y s) \<and>
      10 \<le> value_of (width s) \<and> 10 \<le> value_of (height s) \<and>
      value_of (x s) + value_of (width s) \<le> 100 \<and>
      value_of (y s) + value_of (height s) \<le> 100)"

subsection \<open>Images and canvases\<close>

text \<open>
  What the code uses of the browser's image and canvas objects. An image has its natural
  size. A canvas has a width and a height in whole pixels and the list of
  \<open>drawImage\<close> calls made on it since it was last sized.

  \<open>canvas.width\<close> and \<open>canvas.height\<close> are attributes of type \<open>unsigned long\<close>: an
  assigned number that is \<open>NaN\<close>, infinite or zero becomes 0, any other is truncated
  towards zero and reduced modulo \<open>2^32\<close>; a result above \<open>2^31 - 1\<close> is replaced by the
  attribute's default (300 for the width, 150 for the height). Assigning either one
  clears the canvas.
\<close>

record Image =
  src :: string
  naturalWidth :: nat
  naturalHeight :: nat

datatype drawImage_call =
  DrawImage Image number number
  | DrawImageRect Image number number number number number number number number

record Canvas =
  canvas_width :: nat
  canvas_height :: nat
  drawn :: "drawImage_call list"

definition createCanvas :: Canvas where
  "createCanvas = \<lparr>canvas_width = 300, canvas_height = 150, drawn = []\<rparr>"

fun to_unsigned_long :: "number \<Rightarrow> nat" where
  "to_unsigned_long (Num r) = nat ((if 0 \<le> r then \<lfloor>r\<rfloor> else \<lceil>r\<rceil>) mod 4294967296)"
| "to_unsigned_long MinusZero = 0"
| "to_unsigned_long NaN = 0"
| "to_unsigned_long Infinity = 0"
| "to_unsigned_long MinusInfinity = 0"

definition reflect_unsigned_long :: "nat \<Rightarrow> number \<Rightarrow> nat" where
  "reflect_unsigned_long fallback v =
     (if to_unsigned_long v \<le> 2147483647 then to_unsigned_long v else fallback)"

definition set_width :: "number \<Rightarrow> Canvas \<Rightarrow> Canvas" where
  "set_width v c = c\<lparr>canvas_width := reflect_unsigned_long 300 v, drawn := []\<rparr>"

definition set_height :: "number \<Rightarrow> Canvas \<Rightarrow> Canvas" where
  "set_height v c = c\<lparr>canvas_height := reflect_unsigned_long 150 v, drawn := []\<rparr>"

definition drawImage :: "drawImage_call \<Rightarrow> Canvas \<Rightarrow> Canvas" where
  "drawImage call c = c\<lparr>drawn := drawn c @ [call]\<rparr>"



record Blob =
  bytes :: "nat list"
  blob_type :: string

definition blob_size :: "Blob \<Rightarrow> nat" where
  "blob_size b = length (bytes b)"

datatype js_error = Error string | TypeError | DOMException string

datatype toBlob_outcome = Throws js_error | NullBlob | Encoded Blob

text \<open>
  The browser facilities the engines call, as parameters: whether
  \<open>canvas.getContext('2d')\<close> gives a context; the exception \<open>ctx.drawImage\<close> throws for
  a call, if it throws one (an \<open>InvalidStateError\<close> for an image in the broken state);
  the encoders behind \<open>toDataURL\<close> (the data URL, or the exception thrown, a
  \<open>SecurityError\<close> for a canvas holding an image of another origin) and \<open>toBlob\<close> (type
  and quality as passed; the callback's blob, \<open>null\<close>, or an exception thrown by the
  call); \<open>FileReader.readAsDataURL\<close> (\<open>None\<close> when it fires \<open>onerror\<close>); and the decimal
  text of a finite number that is not a whole number below \<open>2^53\<close> in size (the shortest
  digits that read back as the same double).
\<close>

record Platform =
  getContext_2d :: bool
  drawImage_throws :: "drawImage_call \<Rightarrow> js_error option"
  toDataURL :: "Canvas \<Rightarrow> js_error + string"
  toBlob :: "Canvas \<Rightarrow> string option \<Rightarrow> number \<Rightarrow> toBlob_outcome"
  readAsDataURL :: "Blob \<Rightarrow> string option"
  shortest_decimal :: "real \<Rightarrow> string"

subsection \<open>applyCrop\<close>



section \<open>Format catalog and compression engine (CompressionManager)\<close>

record CompressionOptions =
  quality :: number
  format :: string
  maintainAspectRatio :: bool

record CompressionResult =
  blob :: Blob
  dataUrl :: string
  originalSize :: number
  compressedSize :: number
  compressionRatio :: number

record FormatInfo =
  extension :: string
  mimeType :: string
  supportsQuality :: bool
  description :: string

text \<open>The own properties of the \<open>formatMap\<close> object literal, in the order written.\<close>

definition formatMap :: "(string \<times> FormatInfo) list" where
  "formatMap =
     [(''jpeg'', \<lparr>extension = ''jpg'', mimeType = ''image/jpeg'', supportsQuality = True,
                 description = ''Best for photos''\<rparr>),
      (''png'', \<lparr>extension = ''png'', mimeType = ''image/png'', supportsQuality = False,
                description = ''Best for graphics''\<rparr>),
      (''webp'', \<lparr>extension = ''webp'', mimeType = ''image/webp'', supportsQuality = True,
                 description = ''Modern format''\<rparr>),
      (''avif'', \<lparr>extension = ''avif'', mimeType = ''image/avif'', supportsQuality = True,
                 description = ''Next-gen format''\<rparr>),
      (''bmp'', \<lparr>extension = ''bmp'', mimeType = ''image/bmp'', supportsQuality = False,
                description = ''Uncompressed''\<rparr>),
      (''tiff'', \<lparr>extension = ''tiff'', mimeType = ''image/tiff'', supportsQuality = False,
                 description = ''High quality''\<rparr>),
      (''ico'', \<lparr>extension = ''ico'', mimeType = ''image/x-icon'', supportsQuality = False,
                description = ''Icon format''\<rparr>),
      (''svg'', \<lparr>extension = ''svg'', mimeType = ''image/svg+xml'', supportsQuality = False,
                description = ''Vector format''\<rparr>)]"

text \<open>
  \<open>this.formatMap[format]\<close> is a property read on an object literal. It finds the
  object's own properties and, for any other key, the properties the object inherits from
  \<open>Object.prototype\<close> (methods such as \<open>toString\<close>, and the accessor \<open>__proto__\<close>); only
  a key found in neither place reads as \<open>undefined\<close>.
\<close>

datatype js_value =
  Undefined
  | Descriptor FormatInfo
  | ObjectPrototypeMember string

definition Object_prototype :: "string list" where
  "Object_prototype =
     [''constructor'', ''__defineGetter__'', ''__defineSetter__'', ''hasOwnProperty'',
      ''__lookupGetter__'', ''__lookupSetter__'', ''isPrototypeOf'',
      ''propertyIsEnumerable'', ''toString'', ''valueOf'', ''__proto__'',
      ''toLocaleString'']"

definition get_property :: "(string \<times> FormatInfo) list \<Rightarrow> string \<Rightarrow> js_value" where
  "get_property obj key =
     (case map_of obj key of
        Some info \<Rightarrow> Descriptor info
      | None \<Rightarrow> if key \<in> set Object_prototype then ObjectPrototypeMember key else Undefined)"

text \<open>Objects and functions are truthy, \<open>undefined\<close> is not; \<open>a || b\<close> is \<open>a\<close> when truthy.\<close>

fun truthy :: "js_value \<Rightarrow> bool" where
  "truthy Undefined = False"
| "truthy (Descriptor info) = True"
| "truthy (ObjectPrototypeMember key) = True"

definition or_else :: "js_value \<Rightarrow> js_value \<Rightarrow> js_value" where
  "or_else a b = (if truthy a then a else b)"

definition getFormatInfo :: "string \<Rightarrow> js_value" where
  "getFormatInfo fmt = or_else (get_property formatMap fmt) (get_property formatMap ''jpeg'')"

text \<open>
  \<open>compressImage\<close>: the promise's settlement as a value, \<open>Inl\<close> a rejection and \<open>Inr\<close>
  the result. An exception thrown inside the \<open>try\<close> block, by \<open>drawImage\<close> or by
  \<open>toBlob\<close>, rejects the promise. A member inherited from \<open>Object.prototype\<close> has
  neither a \<open>supportsQuality\<close> nor a \<open>mimeType\<close> property: both read as \<open>undefined\<close>,
  so the quality is 1 and no type is passed to the encoder.
\<close>

definition compressImage ::
  "Platform \<Rightarrow> Image \<Rightarrow> CompressionOptions \<Rightarrow> number \<Rightarrow> js_error + CompressionResult" where
  "compressImage P img options originalSize' =
     (if \<not> getContext_2d P then Inl (Error ''Canvas context not available'')
      else
        (let canvas1 = set_width (number_of_nat (naturalWidth img)) createCanvas;
             canvas2 = set_height (number_of_nat (naturalHeight img)) canvas1
         in case drawImage_throws P (DrawImage img (Num 0) (Num 0)) of
              Some e \<Rightarrow> Inl e
            | None \<Rightarrow>
                (let canvas3 = drawImage (DrawImage img (Num 0) (Num 0)) canvas2
                 in case getFormatInfo (format options) of
                      Undefined \<Rightarrow> Inl TypeError
                    | formatInfo \<Rightarrow>
                        (let quality' = (case formatInfo of
                                           Descriptor info \<Rightarrow>
                                             if supportsQuality info
                                             then js_divide (quality options) (Num 100)
                                             else Num 1
                                         | _ \<Rightarrow> Num 1);
                             mimeType' = (case formatInfo of
                                            Descriptor info \<Rightarrow> Some (mimeType info)
                                          | _ \<Rightarrow> None)
                         in case toBlob P canvas3 mimeType' quality' of
                              Throws e \<Rightarrow> Inl e
                            | NullBlob \<Rightarrow> Inl (Error ''Failed to compress image'')
                            | Encoded blob' \<Rightarrow>
                                (case readAsDataURL P blob' of
                                   None \<Rightarrow> Inl (Error ''Failed to read compressed image'')
                                 | Some result \<Rightarrow>
                                     Inr \<lparr>blob = blob',
                                          dataUrl = result,
                                          originalSize = originalSize',
                                          compressedSize = number_of_nat (blob_size blob'),
                                          compressionRatio =
                                            js_mul
                                              (js_divide
                                                 (js_sub originalSize'
                                                    (number_of_nat (blob_size blob')))
                                                 originalSize')
                                              (Num 100)\<rparr>)))))"

section \<open>File validator (FileHandler)\<close>

record File =
  name :: string
  size_bytes :: nat
  type_mime :: string

record FileValidation =
  valid :: bool
  error :: "string option"

definition maxFileSize :: nat where
  "maxFileSize = 10 * 1024 * 1024"

definition allowedTypes :: "string list" where
  "allowedTypes =
     [''image/jpeg'', ''image/jpg'', ''image/png'', ''image/webp'', ''image/gif'',
      ''image/bmp'', ''image/tiff'', ''image/avif'', ''image/svg+xml'', ''image/x-icon'']"

definition validateImageFile :: "File \<Rightarrow> FileValidation" where
  "validateImageFile file =
     (if type_mime file \<notin> set allowedTypes then
        \<lparr>valid = False,
         error = Some ''Please select a valid image file (JPEG, PNG, WebP, GIF, BMP, TIFF)''\<rparr>
      else if size_bytes file > maxFileSize then
        \<lparr>valid = False, error = Some ''File size must be less than 10MB''\<rparr>
      else \<lparr>valid = True, error = None\<rparr>)"

section \<open>Filter compositor (FilterManager)\<close>

record FilterOptions =
  brightness :: number
  contrast :: number
  saturation :: number
  blur :: number
  filter_name :: string

text \<open>Of the element, the text last assigned to \<open>element.style.filter\<close>.\<close>

record HTMLImageElement =
  style_filter :: string

definition digit_char :: "nat \<Rightarrow> char" where
  "digit_char n = ''0123456789'' ! (n mod 10)"

function digits :: "nat \<Rightarrow> string" where
  "digits n = (if n < 10 then [digit_char n] else digits (n div 10) @ [digit_char n])"
  by pat_completeness auto
termination
  by (relation "measure id") auto

text \<open>
  The text a template literal gives a number: \<open>NaN\<close>, \<open>Infinity\<close>, \<open>-Infinity\<close>, \<open>0\<close>
  for either zero, the decimal digits of a whole number below \<open>2^53\<close> in size (after a
  minus sign when it is negative), and for every other finite number the platform's
  shortest decimal text.
\<close>

fun Number_toString :: "Platform \<Rightarrow> number \<Rightarrow> string" where
  "Number_toString P NaN = ''NaN''"
| "Number_toString P Infinity = ''Infinity''"
| "Number_toString P MinusInfinity = ''-Infinity''"
| "Number_toString P MinusZero = ''0''"
| "Number_toString P (Num r) =
     (if of_int \<lfloor>r\<rfloor> = r \<and> \<bar>r\<bar> < 2 ^ 53
      then (if r < 0 then CHR ''-'' # digits (nat \<lfloor>- r\<rfloor>) else digits (nat \<lfloor>r\<rfloor>))
      else shortest_decimal P r)"

text \<open>\<open>Array.prototype.join\<close> with a separator.\<close>

fun join :: "string \<Rightarrow> string list \<Rightarrow> string" where
  "join sep [] = []"
| "join sep [s] = s"
| "join sep (s # t # rest) = s @ sep @ join sep (t # rest)"

definition push :: "string list \<Rightarrow> string list \<Rightarrow> string list" where
  "push filters items = filters @ items"

text \<open>The array \<open>filters\<close> as it stands before the final \<open>join\<close>.\<close>

definition filter_chain :: "Platform \<Rightarrow> FilterOptions \<Rightarrow> string list" where
  "filter_chain P options =
     (let filters0 = [];
          filters1 = (if strict_not_equal (brightness options) (Num 100)
                      then push filters0
                             [''brightness('' @ Number_toString P (brightness options) @ ''%)'']
                      else filters0);
          filters2 = (if strict_not_equal (contrast options) (Num 100)
                      then push filters1
                             [''contrast('' @ Number_toString P (contrast options) @ ''%)'']
                      else filters1);
          filters3 = (if strict_not_equal (saturation options) (Num 100)
                      then push filters2
                             [''saturate('' @ Number_toString P (saturation options) @ ''%)'']
                      else filters2);
          filters4 = (if js_greater (blur options) (Num 0)
                      then push filters3
                             [''blur('' @ Number_toString P (blur options) @ ''px)'']
                      else filters3)
      in if filter_name options = ''grayscale'' then push filters4 [''grayscale(100%)'']
         else if filter_name options = ''sepia'' then push filters4 [''sepia(100%)'']
         else if filter_name options = ''vintage''
           then push filters4 [''sepia(50%)'', ''contrast(120%)'', ''brightness(90%)'']
         else if filter_name options = ''cool''
           then push filters4 [''hue-rotate(180deg)'', ''saturate(120%)'']
         else if filter_name options = ''warm''
           then push filters4 [''hue-rotate(30deg)'', ''saturate(110%)'', ''brightness(110%)'']
         else if filter_name options = ''noir''
           then push filters4 [''grayscale(100%)'', ''contrast(150%)'', ''brightness(80%)'']
         else if filter_name options = ''vivid''
           then push filters4 [''saturate(150%)'', ''contrast(110%)'', ''brightness(105%)'']
         else filters4)"

definition applyFilters ::
  "Platform \<Rightarrow> HTMLImageElement \<Rightarrow> FilterOptions \<Rightarrow> HTMLImageElement" where
  "applyFilters P element options =
     element\<lparr>style_filter := join '' '' (filter_chain P options)\<rparr>"

text \<open>
  The preset table of the specification (section 4.2), and the chain as the specification
  words it: each numeric function unless its value is neutral (100 for the percentages,
  0 for the blur), then the preset's functions.
\<close>

definition preset_functions :: "string \<Rightarrow> string list" where
  "preset_functions preset =
     (if preset = ''grayscale'' then [''grayscale(100%)'']
      else if preset = ''sepia'' then [''sepia(100%)'']
      else if preset = ''vintage'' then [''sepia(50%)'', ''contrast(120%)'', ''brightness(90%)'']
      else if preset = ''cool'' then [''hue-rotate(180deg)'', ''saturate(120%)'']
      else if preset = ''warm''
        then [''hue-rotate(30deg)'', ''saturate(110%)'', ''brightness(110%)'']
      else if preset = ''noir'' then [''grayscale(100%)'', ''contrast(150%)'', ''brightness(80%)'']
      else if preset = ''vivid'' then [''saturate(150%)'', ''contrast(110%)'', ''brightness(105%)'']
      else [])"

definition specified_filter_chain :: "Platform \<Rightarrow> FilterOptions \<Rightarrow> string list" where
  "specified_filter_chain P options =
     (if strict_not_equal (brightness options) (Num 100)
      then [''brightness('' @ Number_toString P (brightness options) @ ''%)''] else []) @
     (if strict_not_equal (contrast options) (Num 100)
      then [''contrast('' @ Number_toString P (contrast options) @ ''%)''] else []) @
     (if strict_not_equal (saturation options) (Num 100)
      then [''saturate('' @ Number_toString P (saturation options) @ ''%)''] else []) @
     (if strict_not_equal (blur options) (Num 0)
      then [''blur('' @ Number_toString P (blur options) @ ''px)''] else []) @
     preset_functions (filter_name options)"

section \<open>A platform for the examples\<close>

text \<open>
  A browser that throws nothing and whose encoder writes \<open>1200 * quality\<close> bytes,
  rounded down, so that its output depends on the quality it is given. The examples
  print whole numbers only.
\<close>

definition example_platform :: Platform where
  "example_platform =
     \<lparr>getContext_2d = True,
      drawImage_throws = (\<lambda>call. None),
      toDataURL = (\<lambda>c. Inr ''data:image/png;base64,''),
      toBlob = (\<lambda>c type' q.
        Encoded \<lparr>bytes = replicate (nat \<lfloor>value_of q * 1200\<rfloor>) 0,
                 blob_type = (case type' of Some s \<Rightarrow> s | None \<Rightarrow> ''image/png'')\<rparr>),
      readAsDataURL = (\<lambda>b. Some (''data:'' @ blob_type b @ '';base64,'')),
      shortest_decimal = (\<lambda>r. [])\<rparr>"

definition example_image :: "nat \<Rightarrow> nat \<Rightarrow> Image" where
  "example_image w h = \<lparr>src = ''photo'', naturalWidth = w, naturalHeight = h\<rparr>"

text \<open>A new manager whose settings were then set from \<open>p\<close>.\<close>

definition example_crop :: "PartialCropSettings \<Rightarrow> CropManager \<times> heap" where
  "example_crop p = (let (m0, h0) = new_CropManager empty_heap in setCropSettings m0 p h0)"

section \<open>Properties of the number model\<close>

text \<open>
  The binade is the right one, rounding moves a value by at most half the spacing of
  its binade, and whole numbers below \<open>2^53\<close> are doubles as they stand.
\<close>

lemma pow2_pos: "0 < pow2 e"
  by (simp add: pow2_def)

lemma pow2_add: "pow2 (a + b) = pow2 a * pow2 b"
proof -
  have "pow2 e = 2 powr (real_of_int e)" for e
    by (auto simp: pow2_def powr_realpow [symmetric] powr_minus field_simps)
  then show ?thesis by (simp add: powr_add)
qed

lemma pow2_Suc: "pow2 (e + 1) = 2 * pow2 e"
  using pow2_add [of e 1] by (simp add: pow2_def)

lemma pow2_half: "pow2 (e - 1) = pow2 e / 2"
  using pow2_Suc [of "e - 1"] by simp

lemma round_half_even_of_int: "round_half_even (of_int k) = k"
  by (simp add: round_half_even_def)

lemma round_half_even_error: "\<bar>of_int (round_half_even t) - t\<bar> \<le> 1 / 2"
  unfolding round_half_even_def by (auto simp: abs_le_iff)

lemma two_power_le_real: "2 ^ n \<le> (k::int) \<Longrightarrow> (2::real) ^ n \<le> real_of_int k"
  by (metis of_int_le_iff of_int_numeral of_int_power)

lemma less_two_power_real: "(k::int) < 2 ^ n \<Longrightarrow> real_of_int k + 1 \<le> (2::real) ^ n"
proof -
  assume "k < 2 ^ n"
  then have "k + 1 \<le> 2 ^ n" by simp
  then have "real_of_int (k + 1) \<le> real_of_int (2 ^ n)" by (simp only: of_int_le_iff)
  then show ?thesis by simp
qed

lemma binade_bounds:
  assumes "r \<noteq> 0"
  shows "pow2 (binade r) \<le> \<bar>r\<bar>" and "\<bar>r\<bar> < pow2 (binade r + 1)"
proof -
  have "pow2 (binade r) \<le> \<bar>r\<bar> \<and> \<bar>r\<bar> < pow2 (binade r + 1)"
  proof (cases "1 \<le> \<bar>r\<bar>")
    case True
    define k where "k = \<lfloor>\<bar>r\<bar>\<rfloor>"
    have k: "0 < k" using True by (simp add: k_def)
    have b1: "1 \<le> bitlen k" using k by (simp add: bitlen_ge_iff_power)
    have e: "binade r = bitlen k - 1" using True by (simp add: binade_def k_def)
    from bitlen_bounds [OF k] have lo: "2 ^ nat (bitlen k - 1) \<le> k" and hi: "k < 2 ^ nat (bitlen k)"
      by simp_all
    have "2 ^ nat (bitlen k - 1) \<le> real_of_int k" using lo by (rule two_power_le_real)
    also have "\<dots> \<le> \<bar>r\<bar>" by (simp add: k_def)
    finally have 1: "pow2 (binade r) \<le> \<bar>r\<bar>" using b1 by (simp add: e pow2_def)
    have "\<bar>r\<bar> < real_of_int k + 1" by (simp add: k_def)
    also have "\<dots> \<le> 2 ^ nat (bitlen k)" using hi by (rule less_two_power_real)
    finally have 2: "\<bar>r\<bar> < pow2 (binade r + 1)" using b1 by (simp add: e pow2_def)
    from 1 2 show ?thesis ..
  next
    case False
    define t where "t = 1 / \<bar>r\<bar>"
    define j where "j = \<lceil>t\<rceil> - 1"
    have r: "0 < \<bar>r\<bar>" "\<bar>r\<bar> < 1" using assms False by simp_all
    have t1: "1 < t" using r by (simp add: t_def)
    have rt: "\<bar>r\<bar> = 1 / t" by (simp add: t_def)
    have j: "0 < j" using t1 by (simp add: j_def less_ceiling_iff)
    have b1: "1 \<le> bitlen j" using j by (simp add: bitlen_ge_iff_power)
    have e: "binade r = - bitlen j" using False by (simp add: binade_def j_def t_def)
    from bitlen_bounds [OF j] have lo: "2 ^ nat (bitlen j - 1) \<le> j" and hi: "j < 2 ^ nat (bitlen j)"
      by simp_all
    have "2 ^ nat (bitlen j - 1) \<le> real_of_int j" using lo by (rule two_power_le_real)
    also have "\<dots> < t" unfolding j_def by linarith
    finally have tlo: "2 ^ nat (bitlen j - 1) < t" .
    have "t \<le> real_of_int j + 1" unfolding j_def by simp
    also have "\<dots> \<le> 2 ^ nat (bitlen j)" using hi by (rule less_two_power_real)
    finally have thi: "t \<le> 2 ^ nat (bitlen j)" .
    have 1: "pow2 (binade r) \<le> \<bar>r\<bar>"
    proof -
      have "1 / 2 ^ nat (bitlen j) \<le> 1 / t"
        using thi t1 by (intro divide_left_mono) simp_all
      then show ?thesis using b1 by (simp add: e pow2_def rt)
    qed
    have 2: "\<bar>r\<bar> < pow2 (binade r + 1)"
    proof -
      have "1 / t < 1 / 2 ^ nat (bitlen j - 1)"
        using tlo t1 by (intro divide_strict_left_mono mult_pos_pos) simp_all
      moreover have "pow2 (- bitlen j + 1) = 1 / 2 ^ nat (bitlen j - 1)"
        using b1 by (cases "bitlen j = 1") (simp_all add: pow2_def)
      ultimately show ?thesis by (simp add: e rt)
    qed
    from 1 2 show ?thesis ..
  qed
  then show "pow2 (binade r) \<le> \<bar>r\<bar>" and "\<bar>r\<bar> < pow2 (binade r + 1)" by simp_all
qed

lemma rnd_error:
  "\<bar>rnd r - r\<bar> \<le> pow2 (max (binade r) (- 1022) - 53)"
proof (cases "r = 0")
  case True
  then show ?thesis using pow2_pos [of "max (binade 0) (- 1022) - 53"] by (simp add: rnd_def)
next
  case False
  define q where "q = pow2 (max (binade r) (- 1022) - 52)"
  have q: "0 < q" by (simp add: q_def pow2_pos)
  have "rnd r - r = (of_int (round_half_even (r / q)) - r / q) * q"
    using False q by (simp add: rnd_def q_def field_simps)
  then have "\<bar>rnd r - r\<bar> = \<bar>of_int (round_half_even (r / q)) - r / q\<bar> * q"
    using q by (simp add: abs_mult)
  also have "\<dots> \<le> 1 / 2 * q"
    using round_half_even_error [of "r / q"] q by (intro mult_right_mono) simp_all
  also have "\<dots> = pow2 (max (binade r) (- 1022) - 53)"
    using pow2_half [of "max (binade r) (- 1022) - 52"] by (simp add: q_def)
  finally show ?thesis .
qed

lemma rnd_multiple:
  assumes "r = of_int k * pow2 (max (binade r) (- 1022) - 52)"
  shows "rnd r = r"
proof (cases "r = 0")
  case True then show ?thesis by (simp add: rnd_def)
next
  case False
  define q where "q = pow2 (max (binade r) (- 1022) - 52)"
  have q: "0 < q" by (simp add: q_def pow2_pos)
  have rq: "r = of_int k * q" unfolding q_def by (rule assms)
  have "r / q = of_int k" by (subst rq) (use q in simp)
  then have "rnd r = of_int k * q"
    using False by (simp add: rnd_def q_def [symmetric] round_half_even_of_int)
  then show ?thesis using assms by (simp add: q_def)
qed

lemma rnd_nat:
  assumes "n < 2 ^ 53"
  shows "rnd (real n) = real n"
proof (cases "n = 0")
  case True then show ?thesis by (simp add: rnd_def)
next
  case False
  define e where "e = binade (real n)"
  have n: "0 < int n" using False by simp
  have e: "e = bitlen (int n) - 1" using False by (simp add: e_def binade_def)
  have "1 \<le> bitlen (int n)" using n by (simp add: bitlen_ge_iff_power)
  then have lo: "0 \<le> e" by (simp add: e)
  have "int n < 2 ^ nat 53" using assms by (simp add: nat_less_iff flip: of_nat_power)
  then have hi: "e \<le> 52" by (simp add: e bitlen_le_iff_power)
  have m: "max e (- 1022) - 52 = - (52 - e)" using lo by simp
  have p: "pow2 (- (52 - e)) * 2 ^ nat (52 - e) = 1"
    using hi by (simp add: pow2_def)
  have "real n = of_int (int n * 2 ^ nat (52 - e)) * pow2 (max e (- 1022) - 52)"
    using p by (simp add: m mult.assoc mult.commute [of "2 ^ nat (52 - e)"])
  then show ?thesis unfolding e_def by (rule rnd_multiple)
qed

lemma number_of_nat_exact:
  assumes "n < 2 ^ 53"
  shows "number_of_nat n = Num (real n)"
proof (cases "n = 0")
  case True then show ?thesis by (simp add: number_of_nat_def)
next
  case False
  have "real n < 2 ^ 53" using assms by (metis of_nat_less_iff of_nat_numeral of_nat_power)
  also have "\<dots> < (2::real) ^ 1024" by simp
  finally have "real n < 2 ^ 1024" .
  then show ?thesis
    using False by (simp add: number_of_nat_def round_result_def rnd_nat [OF assms])
qed

lemma rnd_relative_error:
  assumes "pow2 (- 1022) \<le> \<bar>r\<bar>"
  shows "\<bar>rnd r - r\<bar> \<le> \<bar>r\<bar> / 2 ^ 53"
proof -
  have nz: "r \<noteq> 0" using assms pow2_pos [of "- 1022"] by auto
  have p53: "pow2 (- 53) = 1 / 2 ^ 53" by (simp add: pow2_def)
  have "pow2 (- 1022) < pow2 (binade r + 1)"
    using assms binade_bounds(2) [OF nz] by simp
  then have "- 1022 \<le> binade r"
  proof (rule_tac ccontr)
    assume a: "pow2 (- 1022) < pow2 (binade r + 1)" and "\<not> - 1022 \<le> binade r"
    then have "0 \<le> - 1022 - (binade r + 1)" by simp
    then have "1 \<le> pow2 (- 1022 - (binade r + 1))" by (simp add: pow2_def)
    then have "pow2 (binade r + 1) * 1 \<le> pow2 (binade r + 1) * pow2 (- 1022 - (binade r + 1))"
      using pow2_pos [of "binade r + 1"] by (intro mult_left_mono) simp_all
    then have "pow2 (binade r + 1) \<le> pow2 (- 1022)"
      by (simp add: pow2_add [symmetric])
    with a show False by simp
  qed
  then have m: "max (binade r) (- 1022) = binade r" by simp
  have "\<bar>rnd r - r\<bar> \<le> pow2 (binade r + (- 53))"
    using rnd_error [of r] by (simp add: m)
  also have "\<dots> = pow2 (binade r) * pow2 (- 53)"
    by (rule pow2_add)
  also have "\<dots> = pow2 (binade r) / 2 ^ 53"
    using p53 by simp
  also have "\<dots> \<le> \<bar>r\<bar> / 2 ^ 53"
    using binade_bounds(1) [OF nz] by (intro divide_right_mono) simp_all
  finally show ?thesis .
qed

lemma rnd_zero: "rnd 0 = 0"
  by (simp add: rnd_def)

lemma pow2_mono: "a \<le> b \<Longrightarrow> pow2 a \<le> pow2 b"
proof -
  assume "a \<le> b"
  then have "1 \<le> pow2 (b - a)" by (simp add: pow2_def)
  then have "pow2 a * 1 \<le> pow2 a * pow2 (b - a)"
    using pow2_pos [of a] by (intro mult_left_mono) simp_all
  then show ?thesis by (simp add: pow2_add [symmetric])
qed

lemma binade_unique:
  assumes "pow2 a \<le> \<bar>r\<bar>" and "\<bar>r\<bar> < pow2 (a + 1)"
  shows "binade r = a"
proof -
  have nz: "r \<noteq> 0" using assms(1) pow2_pos [of a] by auto
  note b = binade_bounds [OF nz]
  have "\<not> binade r < a"
  proof
    assume "binade r < a"
    then have "pow2 (binade r + 1) \<le> pow2 a" by (intro pow2_mono) simp
    with b(2) assms(1) show False by simp
  qed
  moreover have "\<not> a < binade r"
  proof
    assume "a < binade r"
    then have "pow2 (a + 1) \<le> pow2 (binade r)" by (intro pow2_mono) simp
    with b(1) assms(2) show False by simp
  qed
  ultimately show ?thesis by simp
qed

lemma round_half_even_ge: "of_int k \<le> t \<Longrightarrow> k \<le> round_half_even t"
proof -
  assume "of_int k \<le> t"
  then have "k \<le> \<lfloor>t\<rfloor>" by (simp add: le_floor_iff)
  then show ?thesis by (simp add: round_half_even_def)
qed

lemma round_half_even_le: "t \<le> of_int k \<Longrightarrow> round_half_even t \<le> k"
proof (cases "of_int \<lfloor>t\<rfloor> = t")
  case True
  assume "t \<le> of_int k"
  then have "\<lfloor>t\<rfloor> \<le> k" using True by linarith
  moreover have "round_half_even (of_int \<lfloor>t\<rfloor>) = \<lfloor>t\<rfloor>" by (rule round_half_even_of_int)
  then have "round_half_even t = \<lfloor>t\<rfloor>" by (simp only: True)
  ultimately show ?thesis by simp
next
  case False
  assume "t \<le> of_int k"
  then have "of_int \<lfloor>t\<rfloor> < (of_int k :: real)" using False
    by (metis floor_less_iff of_int_floor_le order.not_eq_order_implies_strict order_le_less_trans floor_of_int of_int_less_iff less_le)
  then have "\<lfloor>t\<rfloor> + 1 \<le> k" by simp
  then show ?thesis by (simp add: round_half_even_def)
qed

text \<open>
  Rounding twice is rounding once: a rounded value is a double, so every finite result of
  an arithmetic operation is one.
\<close>

lemma rnd_idempotent: "rnd (rnd r) = rnd r"
proof (cases "r = 0")
  case True
  then show ?thesis by (simp add: rnd_def)
next
  case False
  define e where "e = max (binade r) (- 1022)"
  define q where "q = pow2 (e - 52)"
  define m where "m = round_half_even (r / q)"
  have q: "0 < q" by (simp add: q_def pow2_pos)
  have v: "rnd r = of_int m * q" using False by (simp add: rnd_def m_def q_def e_def)
  have e: "- 1022 \<le> e" "binade r \<le> e" by (simp_all add: e_def)
  have p53: "pow2 53 = 2 ^ 53" and p52: "pow2 52 = 2 ^ 52" by (simp_all add: pow2_def)
  have "e + 1 = 53 + (e - 52)" by simp
  then have "pow2 (e + 1) = pow2 (53 + (e - 52))" by (rule arg_cong)
  moreover have "e = 52 + (e - 52)" by simp
  then have "pow2 e = pow2 (52 + (e - 52))" by (rule arg_cong)
  ultimately have "pow2 (e + 1) = pow2 53 * pow2 (e - 52)" "pow2 e = pow2 52 * pow2 (e - 52)"
    by (simp_all only: pow2_add)
  then have q53: "2 ^ 53 * q = pow2 (e + 1)" and q52: "2 ^ 52 * q = pow2 e"
    by (simp_all only: p53 p52 q_def)
  have "\<bar>r\<bar> < pow2 (binade r + 1)" by (rule binade_bounds(2) [OF False])
  also have "\<dots> \<le> pow2 (e + 1)" using e(2) by (intro pow2_mono) simp
  finally have "\<bar>r\<bar> < 2 ^ 53 * q" by (simp only: q53)
  then have hi: "\<bar>r\<bar> / q < 2 ^ 53" using q by (simp add: field_simps)
  then have "r / q \<le> 2 ^ 53" "- (2 ^ 53) \<le> r / q"
    using q by (simp_all add: abs_less_iff field_simps)
  then have m53: "m \<le> 2 ^ 53" "- (2 ^ 53) \<le> m"
    unfolding m_def
    using round_half_even_le [of "r / q" "2 ^ 53"] round_half_even_ge [of "- (2 ^ 53)" "r / q"]
    by simp_all
  show ?thesis
  proof (cases "m = 0")
    case True
    then have z: "rnd r = 0" by (simp add: v)
    have "rnd 0 = 0" by (simp add: rnd_def)
    then show ?thesis by (simp only: z)
  next
    case mnz: False
    have absv: "\<bar>of_int m * q\<bar> = of_int \<bar>m\<bar> * q" using q by (simp add: abs_mult)
    consider (top) "\<bar>m\<bar> = 2 ^ 53" | (mid) "2 ^ 52 \<le> \<bar>m\<bar>" "\<bar>m\<bar> < 2 ^ 53" | (low) "\<bar>m\<bar> < 2 ^ 52"
      using m53 by linarith
    then show ?thesis
    proof cases
      case top
      have "of_int \<bar>m\<bar> * q = 2 ^ 53 * q" using top by simp
      then have val: "\<bar>of_int m * q\<bar> = pow2 (e + 1)" by (simp only: absv q53)
      have "pow2 (e + 1) < pow2 (e + 1 + 1)"
        using pow2_Suc [of "e + 1"] pow2_pos [of "e + 1"] by simp
      then have b: "binade (of_int m * q) = e + 1"
        by (intro binade_unique) (simp_all add: val)
      have "e + 1 - 52 = e - 52 + 1" by simp
      then have "pow2 (e + 1 - 52) = pow2 (e - 52 + 1)" by (rule arg_cong)
      then have q2: "pow2 (e + 1 - 52) = 2 * q" by (simp only: pow2_Suc q_def)
      have mx: "max (binade (of_int m * q)) (- 1022) - 52 = e + 1 - 52"
        using e(1) by (simp add: b)
      have "m = 2 * 2 ^ 52 \<or> m = 2 * (- (2 ^ 52))" using top by simp linarith
      then obtain k where "m = 2 * k" by blast
      then have "of_int m * q = of_int k * (2 * q)" by simp
      also have "2 * q = pow2 (max (binade (of_int m * q)) (- 1022) - 52)"
        by (simp only: mx q2)
      finally have "of_int m * q = of_int k * pow2 (max (binade (of_int m * q)) (- 1022) - 52)" .
      then have "rnd (of_int m * q) = of_int m * q" by (rule rnd_multiple)
      then show ?thesis by (simp add: v)
    next
      case mid
      have "pow2 e \<le> \<bar>of_int m * q\<bar>"
      proof -
        have "2 ^ 52 * q \<le> of_int \<bar>m\<bar> * q"
          using mid(1) q by (intro mult_right_mono) (simp_all add: two_power_le_real)
        then show ?thesis by (simp only: absv q52)
      qed
      moreover have "\<bar>of_int m * q\<bar> < pow2 (e + 1)"
      proof -
        have "real_of_int \<bar>m\<bar> < 2 ^ 53" using mid(2)
          by (metis of_int_less_iff of_int_numeral of_int_power)
        then have "of_int \<bar>m\<bar> * q < 2 ^ 53 * q" using q by simp
        then show ?thesis by (simp only: absv q53)
      qed
      ultimately have b: "binade (of_int m * q) = e" by (rule binade_unique)
      have mx: "max (binade (of_int m * q)) (- 1022) - 52 = e - 52"
        using e(1) by (simp add: b)
      have "pow2 (max (binade (of_int m * q)) (- 1022) - 52) = q"
        by (simp only: mx) (simp only: q_def)
      then have "of_int m * q = of_int m * pow2 (max (binade (of_int m * q)) (- 1022) - 52)"
        by (simp only:)
      then have "rnd (of_int m * q) = of_int m * q" by (rule rnd_multiple)
      then show ?thesis by (simp add: v)
    next
      case low
      have sub: "binade r < - 1022"
      proof (rule ccontr)
        assume "\<not> binade r < - 1022"
        then have eb: "e = binade r" by (simp add: e_def)
        have "pow2 e \<le> \<bar>r\<bar>" unfolding eb by (rule binade_bounds(1) [OF False])
        then have "2 ^ 52 * q \<le> \<bar>r\<bar>" by (simp only: q52)
        then have lo: "2 ^ 52 \<le> \<bar>r\<bar> / q" using q by (simp add: field_simps)
        have "2 ^ 52 \<le> \<bar>m\<bar>"
        proof (cases "0 \<le> r")
          case True
          then have "2 ^ 52 \<le> r / q" using lo by simp
          then have "2 ^ 52 \<le> m" unfolding m_def
            using round_half_even_ge [of "2 ^ 52" "r / q"] by simp
          then show ?thesis by simp
        next
          case False
          then have "r / q \<le> - (2 ^ 52)" using lo q by (simp add: field_simps)
          then have "m \<le> - (2 ^ 52)" unfolding m_def
            using round_half_even_le [of "r / q" "- (2 ^ 52)"] by simp
          then show ?thesis by simp
        qed
        with low show False by simp
      qed
      then have e1022: "e = - 1022" by (simp add: e_def)
      have "real_of_int \<bar>m\<bar> < 2 ^ 52" using low
        by (metis of_int_less_iff of_int_numeral of_int_power)
      then have "of_int \<bar>m\<bar> * q < 2 ^ 52 * q" using q by simp
      then have small: "\<bar>of_int m * q\<bar> < pow2 (- 1022)" by (simp only: absv q52 e1022)
      have nzv: "of_int m * q \<noteq> 0" using mnz q by simp
      have "binade (of_int m * q) < - 1022"
      proof (rule ccontr)
        assume "\<not> binade (of_int m * q) < - 1022"
        then have "pow2 (- 1022) \<le> pow2 (binade (of_int m * q))" by (intro pow2_mono) simp
        with binade_bounds(1) [OF nzv] small show False by simp
      qed
      then have mx: "max (binade (of_int m * q)) (- 1022) - 52 = e - 52"
        by (simp add: e1022)
      have "pow2 (max (binade (of_int m * q)) (- 1022) - 52) = q"
        by (simp only: mx) (simp only: q_def)
      then have "of_int m * q = of_int m * pow2 (max (binade (of_int m * q)) (- 1022) - 52)"
        by (simp only:)
      then have "rnd (of_int m * q) = of_int m * q" by (rule rnd_multiple)
      then show ?thesis by (simp add: v)
    qed
  qed
qed

lemma round_result_double: "round_result r = Num v \<Longrightarrow> rnd v = v \<and> \<bar>v\<bar> < 2 ^ 1024"
  by (auto simp: round_result_def zero_of_def infinity_of_def rnd_idempotent rnd_zero split: if_splits)

lemma round_result_value:
  "is_finite (round_result r) \<Longrightarrow> value_of (round_result r) = rnd r"
  by (auto simp: round_result_def zero_of_def infinity_of_def split: if_splits)

lemma js_neg_value: "is_finite (js_neg a) = is_finite a" "value_of (js_neg a) = - value_of a"
  by (cases a; simp)+

lemma js_add_value:
  assumes "is_finite (js_add a b)"
  shows "is_finite a \<and> is_finite b \<and> value_of (js_add a b) = rnd (value_of a + value_of b)"
  using assms
  by (cases a; cases b)
    (auto simp: js_add_def is_zero_def is_infinite_def rnd_zero round_result_value
      split: if_splits)

lemma js_sub_value:
  assumes "is_finite (js_sub a b)"
  shows "is_finite a \<and> is_finite b \<and> value_of (js_sub a b) = rnd (value_of a - value_of b)"
  using js_add_value [of a "js_neg b"] assms by (simp add: js_sub_def js_neg_value)

lemma js_mul_value:
  assumes "is_finite (js_mul a b)"
  shows "is_finite a \<and> is_finite b \<and> value_of (js_mul a b) = rnd (value_of a * value_of b)"
  using assms
  by (cases a; cases b)
    (auto simp: js_mul_def is_zero_def is_infinite_def zero_of_def infinity_of_def rnd_zero
      round_result_value split: if_splits)

lemma js_divide_value:
  assumes "is_finite (js_divide a b)" and "is_finite b"
  shows "is_finite a \<and> value_of b \<noteq> 0 \<and>
         value_of (js_divide a b) = rnd (value_of a / value_of b)"
  using assms
  by (cases a; cases b)
    (auto simp: js_divide_def is_zero_def is_infinite_def zero_of_def infinity_of_def rnd_zero
      round_result_value split: if_splits)

text \<open>The facts that evaluate the operations on given numbers.\<close>

lemmas number_eval =
  js_add_def js_sub_def js_mul_def js_divide_def js_less_def js_greater_def
  strict_equal_def strict_not_equal_def js_less_equal_def Math_max_def Math_min_def
  number_of_nat_def round_result_def rnd_def binade_def compute_bitlen pow2_def
  round_half_even_def is_zero_def is_infinite_def zero_of_def infinity_of_def

lemma double_examples:
  "js_divide (Num 29) (Num 100) = Num (5224175567749775 / 18014398509481984)"
  "js_mul (js_divide (Num 29) (Num 100)) (Num 100) = Num (8162774324609023 / 281474976710656)"
  "js_mul (js_divide (Num 25) (Num 100)) (Num 200) = Num 50"
  "js_divide (Num 10) (Num 0) = Infinity"
  "js_divide (Num 10) MinusZero = MinusInfinity"
  "js_divide (Num 0) (Num 0) = NaN"
  "js_sub (Num 5) (Num 5) = Num 0"
  "js_add (js_divide (Num 1) (Num 10)) (js_divide (Num 2) (Num 10)) =
     Num (1351079888211149 / 4503599627370496)"
  "Math_max (Num 0) MinusZero = Num 0"
  "Math_min (Num 0) MinusZero = MinusZero"
  "Math_max (Num 0) NaN = NaN"
  by (simp_all add: number_eval)

section \<open>Properties of the crop engine\<close>

lemma spread_no_fields: "spread s no_fields = s"
  by (simp add: spread_def no_fields_def)

lemma spread_all_fields: "spread s (all_fields t) = t"
  by (simp add: spread_def all_fields_def)

lemma new_CropManager_allocated:
  "new_CropManager h = (m, h') \<Longrightarrow> allocated m h'"
  by (auto simp: new_CropManager_def new_object_def allocated_def Let_def)

lemma setCropSettings_allocated:
  "setCropSettings m p h = (m', h') \<Longrightarrow> allocated m' h'"
  by (auto simp: setCropSettings_def new_object_def allocated_def Let_def)

lemma resetCrop_allocated:
  "resetCrop m h = (m', h') \<Longrightarrow> allocated m' h'"
  by (auto simp: resetCrop_def new_object_def allocated_def Let_def)

lemma getCropSettings_allocated:
  "allocated m h \<Longrightarrow> getCropSettings m h = (r, h') \<Longrightarrow> allocated m h'"
  by (auto simp: getCropSettings_def new_object_def allocated_def)

text \<open>
  Claim C8. Whatever the crop settings were before (any x, y, width, height, enabled),
  after \<open>resetCrop\<close> the manager's settings are exactly
  \<open>{x: 0, y: 0, width: 100, height: 100, enabled: false}\<close>.
\<close>

theorem resetCrop_restores_defaults:
  "this_cropSettings (fst (resetCrop m h)) (snd (resetCrop m h)) =
     \<lparr>x = Num 0, y = Num 0, width = Num 100, height = Num 100, enabled = False\<rparr>"
  by (simp add: resetCrop_def new_object_def this_cropSettings_def Let_def)

text \<open>
  Claim C9. \<open>setCropSettings(partial)\<close> sets exactly the fields present in the partial
  and leaves every absent field as it was; and \<open>getCropSettings\<close> returns a copy: a new
  object with the same field values, so that a later write through the returned
  reference (any update \<open>f\<close> of its fields) leaves the manager's own settings unchanged.
\<close>

theorem setCropSettings_merges_getCropSettings_copies:
  assumes "allocated m h"
    and "setCropSettings m p h = (m', h')"
    and "getCropSettings m h = (r, hc)"
  shows "((\<forall>v. x_opt p = Some v \<longrightarrow> x (this_cropSettings m' h') = v) \<and>
          (x_opt p = None \<longrightarrow> x (this_cropSettings m' h') = x (this_cropSettings m h)) \<and>
          (\<forall>v. y_opt p = Some v \<longrightarrow> y (this_cropSettings m' h') = v) \<and>
          (y_opt p = None \<longrightarrow> y (this_cropSettings m' h') = y (this_cropSettings m h)) \<and>
          (\<forall>v. width_opt p = Some v \<longrightarrow> width (this_cropSettings m' h') = v) \<and>
          (width_opt p = None \<longrightarrow>
             width (this_cropSettings m' h') = width (this_cropSettings m h)) \<and>
          (\<forall>v. height_opt p = Some v \<longrightarrow> height (this_cropSettings m' h') = v) \<and>
          (height_opt p = None \<longrightarrow>
             height (this_cropSettings m' h') = height (this_cropSettings m h)) \<and>
          (\<forall>v. enabled_opt p = Some v \<longrightarrow> enabled (this_cropSettings m' h') = v) \<and>
          (enabled_opt p = None \<longrightarrow>
             enabled (this_cropSettings m' h') = enabled (this_cropSettings m h))) \<and>
         (r \<noteq> cropSettings m \<and>
          cells hc r = this_cropSettings m h \<and>
          this_cropSettings m hc = this_cropSettings m h \<and>
          this_cropSettings m (assign r f hc) = this_cropSettings m h)"
proof
  have new: "this_cropSettings m' h' = spread (this_cropSettings m h) p"
    using assms(2)
    by (auto simp: setCropSettings_def new_object_def this_cropSettings_def Let_def)
  show "(\<forall>v. x_opt p = Some v \<longrightarrow> x (this_cropSettings m' h') = v) \<and>
          (x_opt p = None \<longrightarrow> x (this_cropSettings m' h') = x (this_cropSettings m h)) \<and>
          (\<forall>v. y_opt p = Some v \<longrightarrow> y (this_cropSettings m' h') = v) \<and>
          (y_opt p = None \<longrightarrow> y (this_cropSettings m' h') = y (this_cropSettings m h)) \<and>
          (\<forall>v. width_opt p = Some v \<longrightarrow> width (this_cropSettings m' h') = v) \<and>
          (width_opt p = None \<longrightarrow>
             width (this_cropSettings m' h') = width (this_cropSettings m h)) \<and>
          (\<forall>v. height_opt p = Some v \<longrightarrow> height (this_cropSettings m' h') = v) \<and>
          (height_opt p = None \<longrightarrow>
             height (this_cropSettings m' h') = height (this_cropSettings m h)) \<and>
          (\<forall>v. enabled_opt p = Some v \<longrightarrow> enabled (this_cropSettings m' h') = v) \<and>
          (enabled_opt p = None \<longrightarrow>
             enabled (this_cropSettings m' h') = enabled (this_cropSettings m h))"
    unfolding new by (simp add: spread_def)
next
  have fresh: "next_ref h \<noteq> cropSettings m"
    using assms(1) by (simp add: allocated_def)
  have r: "r = next_ref h"
    and hc: "hc = h\<lparr>cells := (cells h)(next_ref h := this_cropSettings m h),
                     next_ref := Suc (next_ref h)\<rparr>"
    using assms(3) by (auto simp: getCropSettings_def new_object_def spread_no_fields)
  show "r \<noteq> cropSettings m \<and>
          cells hc r = this_cropSettings m h \<and>
          this_cropSettings m hc = this_cropSettings m h \<and>
          this_cropSettings m (assign r f hc) = this_cropSettings m h"
    using fresh by (simp add: r hc this_cropSettings_def assign_def)
qed

text \<open>
  The instance \<open>setCropSettings({enabled: true})\<close> on a new manager: x, y, width and
  height stay 0, 0, 100 and 100, and writing \<open>x = 42\<close> into the object that
  \<open>getCropSettings\<close> returned does not reach the manager.
\<close>

theorem setCropSettings_merges_getCropSettings_copies_witness:
  "allocated \<lparr>cropSettings = 0\<rparr> (snd (new_CropManager empty_heap)) \<and>
   this_cropSettings
     (fst (setCropSettings \<lparr>cropSettings = 0\<rparr> (no_fields\<lparr>enabled_opt := Some True\<rparr>)
        (snd (new_CropManager empty_heap))))
     (snd (setCropSettings \<lparr>cropSettings = 0\<rparr> (no_fields\<lparr>enabled_opt := Some True\<rparr>)
        (snd (new_CropManager empty_heap)))) =
     \<lparr>x = Num 0, y = Num 0, width = Num 100, height = Num 100, enabled = True\<rparr> \<and>
   this_cropSettings \<lparr>cropSettings = 0\<rparr>
     (assign (fst (getCropSettings \<lparr>cropSettings = 0\<rparr> (snd (new_CropManager empty_heap))))
        (\<lambda>s. s\<lparr>x := Num 42\<rparr>)
        (snd (getCropSettings \<lparr>cropSettings = 0\<rparr> (snd (new_CropManager empty_heap))))) =
     \<lparr>x = Num 0, y = Num 0, width = Num 100, height = Num 100, enabled = False\<rparr>"
proof -
  let ?m = "\<lparr>cropSettings = 0\<rparr>"
  let ?h = "snd (new_CropManager empty_heap)"
  let ?p = "no_fields\<lparr>enabled_opt := Some True\<rparr>"
  have a: "allocated ?m ?h"
    by (simp add: allocated_def new_CropManager_def new_object_def empty_heap_def)
  have old: "this_cropSettings ?m ?h =
      \<lparr>x = Num 0, y = Num 0, width = Num 100, height = Num 100, enabled = False\<rparr>"
    by (simp add: this_cropSettings_def new_CropManager_def new_object_def empty_heap_def
        initial_settings_def)
  have p: "x_opt ?p = None" "y_opt ?p = None" "width_opt ?p = None" "height_opt ?p = None"
    "enabled_opt ?p = Some True"
    by (simp_all add: no_fields_def)
  note inst = setCropSettings_merges_getCropSettings_copies
    [OF a surjective_pairing surjective_pairing, of ?p "\<lambda>s. s\<lparr>x := Num 42\<rparr>"]
  from inst have "x (this_cropSettings (fst (setCropSettings ?m ?p ?h))
        (snd (setCropSettings ?m ?p ?h))) = Num 0"
    and "y (this_cropSettings (fst (setCropSettings ?m ?p ?h))
        (snd (setCropSettings ?m ?p ?h))) = Num 0"
    and "width (this_cropSettings (fst (setCropSettings ?m ?p ?h))
        (snd (setCropSettings ?m ?p ?h))) = Num 100"
    and "height (this_cropSettings (fst (setCropSettings ?m ?p ?h))
        (snd (setCropSettings ?m ?p ?h))) = Num 100"
    and "enabled (this_cropSettings (fst (setCropSettings ?m ?p ?h))
        (snd (setCropSettings ?m ?p ?h))) = True"
    by (auto simp: p old)
  then have set: "this_cropSettings (fst (setCropSettings ?m ?p ?h))
        (snd (setCropSettings ?m ?p ?h)) =
      \<lparr>x = Num 0, y = Num 0, width = Num 100, height = Num 100, enabled = True\<rparr>"
    by (cases "this_cropSettings (fst (setCropSettings ?m ?p ?h))
        (snd (setCropSettings ?m ?p ?h))") simp
  from inst have "this_cropSettings ?m
      (assign (fst (getCropSettings ?m ?h)) (\<lambda>s. s\<lparr>x := Num 42\<rparr>) (snd (getCropSettings ?m ?h))) =
      this_cropSettings ?m ?h"
    by simp
  with a set old show ?thesis by simp
qed

subsection \<open>One pointer move\<close>



lemma mousemove_after_mouseup: "mousemove (mouseup d) m h cx cy iw ih = Ignored"
  by (simp add: mousemove_def mouseup_def)

text \<open>
  The percentage of a pointer move of 10 pixels on a preview 100 pixels wide, in either
  direction: \<open>(10 / 100) * 100\<close> is 10 in doubles, although \<open>10 / 100\<close> is not exact.
\<close>

lemma ten_percent:
  "js_mul (js_divide (js_sub (Num 0) (Num 10)) (number_of_nat 100)) (Num 100) = Num (- 10)"
  "js_mul (js_divide (js_sub (Num 20) (Num 10)) (number_of_nat 100)) (Num 100) = Num 10"
  "js_mul (js_divide (js_sub (Num 10) (Num 10)) (number_of_nat 100)) (Num 100) = Num 0"
  by (simp_all add: number_eval)

text \<open>
  The handles that move the right or the bottom edge clamp the new size to what is left
  between the corner and the far edge: pulling \<open>se\<close> outwards by 10 percent from the full
  rectangle leaves the rectangle as it is.
\<close>

lemma mousemove_se_stays_within_bounds:
  "(let (m, h) = example_crop (no_fields\<lparr>enabled_opt := Some True\<rparr>);
        d = mousedown initial_DragState m h (CropHandle ''se'') (Num 10) (Num 10)
    in case mousemove d m h (Num 20) (Num 20) 100 100 of
         Updated m' h' r \<Rightarrow>
           this_cropSettings m' h' =
             \<lparr>x = Num 0, y = Num 0, width = Num 100, height = Num 100, enabled = True\<rparr> \<and>
           within_bounds (this_cropSettings m' h')
       | Ignored \<Rightarrow> False)"
  by (simp add: example_crop_def new_CropManager_def empty_heap_def new_object_def
      setCropSettings_def this_cropSettings_def spread_def mousedown_def initial_DragState_def
      mousemove_def resize_def all_fields_def no_fields_def within_bounds_def
      Let_def initial_settings_def ten_percent)
    (simp add: number_eval)

text \<open>
  On a preview of width 0 the percentage of a move to the right is infinite; the body
  drag clamps it and stores \<open>x = 0\<close> for the full rectangle.
\<close>

lemma mousemove_zero_size_preview:
  "(let (m, h) = example_crop (no_fields\<lparr>enabled_opt := Some True\<rparr>);
        d = mousedown initial_DragState m h CropBoxBody (Num 10) (Num 10)
    in case mousemove d m h (Num 20) (Num 10) 0 0 of
         Updated m' h' r \<Rightarrow>
           this_cropSettings m' h' =
             \<lparr>x = Num 0, y = NaN, width = Num 100, height = Num 100, enabled = True\<rparr>
       | Ignored \<Rightarrow> False)"
  by (simp add: example_crop_def new_CropManager_def empty_heap_def new_object_def
      setCropSettings_def this_cropSettings_def spread_def mousedown_def initial_DragState_def
      mousemove_def no_fields_def Let_def initial_settings_def)
    (simp add: number_eval)

text \<open>
  Claim C1. Starting from a rectangle within bounds, one pointer move handled by the
  body drag or by any of the eight handles should leave a rectangle with
  \<open>x \<ge> 0\<close>, \<open>y \<ge> 0\<close>, \<open>width \<ge> 10\<close>, \<open>height \<ge> 10\<close>, \<open>x + width \<le> 100\<close> and
  \<open>y + height \<le> 100\<close>. The handles that move the left or the top edge (\<open>nw\<close>, \<open>ne\<close>,
  \<open>sw\<close>, \<open>n\<close>, \<open>w\<close>) put no upper limit on the new size: with the full rectangle
  \<open>{x: 0, y: 0, width: 100, height: 100}\<close> on a preview 100 pixels wide, pressing the
  \<open>nw\<close> handle at (10, 10) and moving the pointer to (0, 10) gives width 110 at x = 0,
  so \<open>x + width = 110\<close>.
\<close>

theorem mousemove_nw_exceeds_bounds:
  "(let (m, h) = example_crop (no_fields\<lparr>enabled_opt := Some True\<rparr>);
        d = mousedown initial_DragState m h (CropHandle ''nw'') (Num 10) (Num 10)
    in this_cropSettings m h =
         \<lparr>x = Num 0, y = Num 0, width = Num 100, height = Num 100, enabled = True\<rparr> \<and>
       within_bounds (this_cropSettings m h) \<and>
       (case mousemove d m h (Num 0) (Num 10) 100 100 of
          Updated m' h' r \<Rightarrow>
            this_cropSettings m' h' =
              \<lparr>x = Num 0, y = Num 0, width = Num 110, height = Num 100, enabled = True\<rparr> \<and>
            \<not> within_bounds (this_cropSettings m' h')
        | Ignored \<Rightarrow> False))"
  by (simp add: example_crop_def new_CropManager_def empty_heap_def new_object_def
      setCropSettings_def this_cropSettings_def spread_def mousedown_def initial_DragState_def
      mousemove_def resize_def all_fields_def no_fields_def within_bounds_def
      Let_def initial_settings_def ten_percent)
    (simp add: number_eval)

subsection \<open>applyCrop\<close>



lemma number_of_nat_size:
  assumes "n \<le> 2147483647"
  shows "number_of_nat n = Num (real n)"
  using assms by (intro number_of_nat_exact) simp












section \<open>Properties of the format catalog and the compression engine\<close>

lemma getFormatInfo_known:
  "map_of formatMap fmt = Some info \<Longrightarrow> getFormatInfo fmt = Descriptor info"
  by (simp add: getFormatInfo_def get_property_def or_else_def)

lemma getFormatInfo_jpeg:
  "getFormatInfo ''jpeg'' =
     Descriptor \<lparr>extension = ''jpg'', mimeType = ''image/jpeg'', supportsQuality = True,
                 description = ''Best for photos''\<rparr>"
  by (simp add: getFormatInfo_known formatMap_def)

lemma getFormatInfo_png:
  "getFormatInfo ''png'' =
     Descriptor \<lparr>extension = ''png'', mimeType = ''image/png'', supportsQuality = False,
                 description = ''Best for graphics''\<rparr>"
  by (simp add: getFormatInfo_known formatMap_def)

lemma getFormatInfo_fallback:
  assumes "fmt \<notin> fst ` set formatMap" and "fmt \<notin> set Object_prototype"
  shows "getFormatInfo fmt = getFormatInfo ''jpeg''"
proof -
  have "map_of formatMap fmt = None" using assms(1) by (simp add: map_of_eq_None_iff)
  then show ?thesis
    using assms(2) by (simp add: getFormatInfo_def get_property_def or_else_def)
qed

lemma getFormatInfo_not_Undefined: "getFormatInfo fmt \<noteq> Undefined"
  by (auto simp: getFormatInfo_def get_property_def or_else_def formatMap_def
      split: option.splits)

lemma getFormatInfo_foo: "getFormatInfo ''foo'' = getFormatInfo ''jpeg''"
  by (rule getFormatInfo_fallback) (simp_all add: formatMap_def Object_prototype_def)

text \<open>
  Claim C6. \<open>getFormatInfo\<close> should return the catalog entry for the eight known names
  and the \<open>jpeg\<close> descriptor for every other string. It never throws and never returns
  \<open>undefined\<close>, and it does fall back to \<open>jpeg\<close> for a string such as \<open>foo\<close>
  (\<open>getFormatInfo_fallback\<close>); but for the name of a property that every object
  inherits, such as \<open>toString\<close>, the read \<open>this.formatMap[format]\<close> finds the inherited
  member, which is truthy, so the fallback is not taken and the result is not a
  descriptor.
\<close>

theorem getFormatInfo_inherited_key:
  "getFormatInfo ''toString'' = ObjectPrototypeMember ''toString'' \<and>
   getFormatInfo ''toString'' \<noteq> getFormatInfo ''jpeg''"
  by (simp add: getFormatInfo_def get_property_def formatMap_def Object_prototype_def
      or_else_def)

lemma compressImage_result:
  assumes "compressImage P img options orig = Inr r"
  shows "originalSize r = orig"
    and "compressedSize r = number_of_nat (blob_size (blob r))"
    and "compressionRatio r =
           js_mul (js_divide (js_sub orig (number_of_nat (blob_size (blob r)))) orig) (Num 100)"
  using assms
  by (auto simp: compressImage_def Let_def
      split: if_splits js_value.splits toBlob_outcome.splits option.splits)

lemma ratio_value:
  assumes "is_finite (js_mul (js_divide (js_sub (Num v) c) (Num v)) (Num 100))"
  shows "value_of (js_mul (js_divide (js_sub (Num v) c) (Num v)) (Num 100)) =
           rnd (rnd (rnd (v - value_of c) / v) * 100)"
proof -
  from js_mul_value [OF assms]
  have f: "is_finite (js_divide (js_sub (Num v) c) (Num v))"
    and v: "value_of (js_mul (js_divide (js_sub (Num v) c) (Num v)) (Num 100)) =
            rnd (value_of (js_divide (js_sub (Num v) c) (Num v)) * 100)"
    by simp_all
  from js_divide_value [OF f]
  have g: "is_finite (js_sub (Num v) c)"
    and w: "value_of (js_divide (js_sub (Num v) c) (Num v)) =
            rnd (value_of (js_sub (Num v) c) / v)"
    by simp_all
  from js_sub_value [OF g] have "value_of (js_sub (Num v) c) = rnd (v - value_of c)"
    by simp
  with v w show ?thesis by simp
qed

text \<open>
  Claim C3, as the code has it. For every compression result, \<open>originalSize\<close> is the
  size passed in, \<open>compressedSize\<close> is the size of the encoded blob (the byte count
  itself when it is below \<open>2^53\<close>), and \<open>compressionRatio\<close> is
  \<open>((originalSize - compressedSize) / originalSize) * 100\<close> evaluated in double
  arithmetic: for a finite positive original size and a finite ratio, the difference
  rounded to the nearest double, the quotient rounded, and the product rounded.
\<close>

theorem compressionRatio_is_percentage_saved:
  assumes "compressImage P img options orig = Inr r"
  shows "originalSize r = orig \<and>
         compressedSize r = number_of_nat (blob_size (blob r)) \<and>
         (blob_size (blob r) < 2 ^ 53 \<longrightarrow> compressedSize r = Num (real (blob_size (blob r)))) \<and>
         compressionRatio r =
           js_mul (js_divide (js_sub (originalSize r) (compressedSize r)) (originalSize r))
             (Num 100) \<and>
         (\<forall>v. orig = Num v \<and> 0 < v \<and> is_finite (compressionRatio r) \<longrightarrow>
            value_of (compressionRatio r) =
              rnd (rnd (rnd (v - value_of (compressedSize r)) / v) * 100))"
proof -
  note c = compressImage_result [OF assms]
  have "blob_size (blob r) < 2 ^ 53 \<longrightarrow> compressedSize r = Num (real (blob_size (blob r)))"
    by (simp add: c(2) number_of_nat_exact)
  moreover have "\<forall>v. orig = Num v \<and> 0 < v \<and> is_finite (compressionRatio r) \<longrightarrow>
      value_of (compressionRatio r) =
        rnd (rnd (rnd (v - value_of (compressedSize r)) / v) * 100)"
    by (auto simp: c ratio_value)
  ultimately show ?thesis by (simp add: c)
qed

text \<open>
  The example platform's outcome for a format in the catalog: the encoder gets the
  quality divided by 100, or 1 for a format without quality.
\<close>

lemma example_compress:
  assumes "getFormatInfo fmt = Descriptor info"
  shows "compressImage example_platform img
           \<lparr>quality = q, format = fmt, maintainAspectRatio = True\<rparr> orig =
     (let q' = (if supportsQuality info then js_divide q (Num 100) else Num 1);
          n = nat \<lfloor>value_of q' * 1200\<rfloor>
      in Inr \<lparr>blob = \<lparr>bytes = replicate n 0, blob_type = mimeType info\<rparr>,
               dataUrl = ''data:'' @ mimeType info @ '';base64,'',
               originalSize = orig,
               compressedSize = number_of_nat n,
               compressionRatio =
                 js_mul (js_divide (js_sub orig (number_of_nat n)) orig) (Num 100)\<rparr>)"
  using assms
  by (simp add: compressImage_def example_platform_def Let_def blob_size_def)

lemma quality_examples:
  "js_divide (Num (125 / 2)) (Num 100) = Num (5 / 8)"
  "js_divide (Num 7) (Num 100) = Num (1261007895663739 / 18014398509481984)"
  "js_divide (Num 10) (Num 100) = Num (3602879701896397 / 36028797018963968)"
  "js_divide (Num 90) (Num 100) = Num (8106479329266893 / 9007199254740992)"
  by (simp_all add: number_eval)

lemma ratio_examples:
  "js_mul (js_divide (js_sub (Num 1000) (Num 750)) (Num 1000)) (Num 100) = Num 25"
  "js_mul (js_divide (js_sub (Num 1000) (Num 1200)) (Num 1000)) (Num 100) = Num (- 20)"
  "js_mul (js_divide (js_sub (Num 1000) (Num 84)) (Num 1000)) (Num 100) =
     Num (6445776966674023 / 70368744177664)"
  by (simp_all add: number_eval)

lemma size_examples:
  "number_of_nat 750 = Num 750" "number_of_nat 1200 = Num 1200" "number_of_nat 84 = Num 84"
  "number_of_nat 120 = Num 120" "number_of_nat 1080 = Num 1080"
  using number_of_nat_size [of 750] number_of_nat_size [of 1200] number_of_nat_size [of 84]
    number_of_nat_size [of 120] number_of_nat_size [of 1080]
  by simp_all

lemma example_compress_jpeg_62:
  "compressImage example_platform img
     \<lparr>quality = Num (125 / 2), format = ''jpeg'', maintainAspectRatio = True\<rparr> (Num 1000) =
   Inr \<lparr>blob = \<lparr>bytes = replicate 750 0, blob_type = ''image/jpeg''\<rparr>,
        dataUrl = ''data:image/jpeg;base64,'',
        originalSize = Num 1000, compressedSize = Num 750, compressionRatio = Num 25\<rparr>"
  by (simp add: example_compress [OF getFormatInfo_jpeg] quality_examples size_examples
      ratio_examples)

lemma example_compress_jpeg_7:
  "compressImage example_platform img
     \<lparr>quality = Num 7, format = ''jpeg'', maintainAspectRatio = True\<rparr> (Num 1000) =
   Inr \<lparr>blob = \<lparr>bytes = replicate 84 0, blob_type = ''image/jpeg''\<rparr>,
        dataUrl = ''data:image/jpeg;base64,'',
        originalSize = Num 1000, compressedSize = Num 84,
        compressionRatio = Num (6445776966674023 / 70368744177664)\<rparr>"
  by (simp add: example_compress [OF getFormatInfo_jpeg] quality_examples size_examples
      ratio_examples)

lemma example_compress_png:
  "compressImage example_platform img
     \<lparr>quality = q, format = ''png'', maintainAspectRatio = True\<rparr> (Num 1000) =
   Inr \<lparr>blob = \<lparr>bytes = replicate 1200 0, blob_type = ''image/png''\<rparr>,
        dataUrl = ''data:image/png;base64,'',
        originalSize = Num 1000, compressedSize = Num 1200, compressionRatio = Num (- 20)\<rparr>"
  by (simp add: example_compress [OF getFormatInfo_png] size_examples ratio_examples)

text \<open>
  Original size 1000 with 750 bytes encoded gives 25; with 1200 bytes encoded it gives
  -20. In both the three roundings are exact.
\<close>

theorem compressionRatio_is_percentage_saved_witness:
  "(case compressImage example_platform (example_image 200 200)
           \<lparr>quality = Num (125 / 2), format = ''jpeg'', maintainAspectRatio = True\<rparr>
           (Num 1000) of
      Inr r \<Rightarrow> originalSize r = Num 1000 \<and> compressedSize r = Num 750 \<and>
               compressionRatio r = Num 25
    | Inl e \<Rightarrow> False) \<and>
   (case compressImage example_platform (example_image 200 200)
           \<lparr>quality = Num 80, format = ''png'', maintainAspectRatio = True\<rparr> (Num 1000) of
      Inr r \<Rightarrow> originalSize r = Num 1000 \<and> compressedSize r = Num 1200 \<and>
               compressionRatio r = Num (- 20)
    | Inl e \<Rightarrow> False)"
proof -
  let ?img = "example_image 200 200"
  let ?a = "compressImage example_platform ?img
              \<lparr>quality = Num (125 / 2), format = ''jpeg'', maintainAspectRatio = True\<rparr>
              (Num 1000)"
  let ?b = "compressImage example_platform ?img
              \<lparr>quality = Num 80, format = ''png'', maintainAspectRatio = True\<rparr> (Num 1000)"
  obtain ra where ra: "?a = Inr ra" and sa: "blob_size (blob ra) = 750"
    by (simp add: example_compress_jpeg_62 blob_size_def)
  obtain rb where rb: "?b = Inr rb" and sb: "blob_size (blob rb) = 1200"
    by (simp add: example_compress_png blob_size_def)
  have "originalSize ra = Num 1000 \<and> compressedSize ra = Num 750 \<and>
        compressionRatio ra = Num 25"
    using compressionRatio_is_percentage_saved [OF ra]
    by (simp add: sa size_examples ratio_examples)
  moreover have "originalSize rb = Num 1000 \<and> compressedSize rb = Num 1200 \<and>
        compressionRatio rb = Num (- 20)"
    using compressionRatio_is_percentage_saved [OF rb]
    by (simp add: sb size_examples ratio_examples)
  ultimately show ?thesis by (simp add: ra rb)
qed

text \<open>
  The claim as stated asks for the exact rational value. Original size 1000 with 84
  bytes encoded gives exactly 91.6 in rational arithmetic; the code returns the double
  91.60000000000001 (that is 6445776966674023 / 2^46).
\<close>

theorem compressionRatio_is_rounded:
  "(case compressImage example_platform (example_image 200 200)
           \<lparr>quality = Num 7, format = ''jpeg'', maintainAspectRatio = True\<rparr> (Num 1000) of
      Inr r \<Rightarrow> originalSize r = Num 1000 \<and> compressedSize r = Num 84 \<and>
               compressionRatio r = Num (6445776966674023 / 70368744177664) \<and>
               compressionRatio r \<noteq> Num ((1000 - 84) / 1000 * 100)
    | Inl e \<Rightarrow> False)"
  by (simp add: example_compress_jpeg_7)

text \<open>
  Claim C5. For a format whose descriptor has \<open>supportsQuality = false\<close>, two runs of
  \<open>compressImage\<close> on the same image that differ only in the quality give the same
  outcome: the same blob, hence the same size, data URL and ratio. The encoder is a
  function of the canvas, the type and the quality it is passed.
\<close>

theorem quality_ignored_unless_supportsQuality:
  assumes "getFormatInfo (format options) = Descriptor info" and "\<not> supportsQuality info"
  shows "compressImage P img (options\<lparr>quality := q1\<rparr>) orig =
         compressImage P img (options\<lparr>quality := q2\<rparr>) orig"
  using assms by (simp add: compressImage_def Let_def split: option.splits)

text \<open>
  On the example platform, whose encoder is sensitive to the quality, \<open>png\<close> at quality
  10 and at quality 90 give the same outcome, while \<open>jpeg\<close> does not.
\<close>

theorem quality_ignored_unless_supportsQuality_witness:
  "compressImage example_platform (example_image 200 200)
     \<lparr>quality = Num 10, format = ''png'', maintainAspectRatio = True\<rparr> (Num 1000) =
   compressImage example_platform (example_image 200 200)
     \<lparr>quality = Num 90, format = ''png'', maintainAspectRatio = True\<rparr> (Num 1000) \<and>
   compressImage example_platform (example_image 200 200)
     \<lparr>quality = Num 10, format = ''jpeg'', maintainAspectRatio = True\<rparr> (Num 1000) \<noteq>
   compressImage example_platform (example_image 200 200)
     \<lparr>quality = Num 90, format = ''jpeg'', maintainAspectRatio = True\<rparr> (Num 1000)"
proof -
  let ?o = "\<lparr>quality = Num 0, format = ''png'', maintainAspectRatio = True\<rparr>"
  have f: "getFormatInfo (format ?o) =
      Descriptor \<lparr>extension = ''png'', mimeType = ''image/png'', supportsQuality = False,
                  description = ''Best for graphics''\<rparr>"
    by (simp add: getFormatInfo_png)
  have "compressImage example_platform (example_image 200 200) (?o\<lparr>quality := Num 10\<rparr>)
          (Num 1000) =
        compressImage example_platform (example_image 200 200) (?o\<lparr>quality := Num 90\<rparr>)
          (Num 1000)"
    by (rule quality_ignored_unless_supportsQuality [OF f]) simp
  moreover have "compressImage example_platform (example_image 200 200)
       \<lparr>quality = Num 10, format = ''jpeg'', maintainAspectRatio = True\<rparr> (Num 1000) \<noteq>
     compressImage example_platform (example_image 200 200)
       \<lparr>quality = Num 90, format = ''jpeg'', maintainAspectRatio = True\<rparr> (Num 1000)"
    by (simp add: example_compress [OF getFormatInfo_jpeg] quality_examples size_examples)
  ultimately show ?thesis by simp
qed

section \<open>Properties of the file validator\<close>

text \<open>
  Claim C4. \<open>validateImageFile\<close> returns \<open>{valid: true}\<close> exactly when the file's type is
  one of the ten allowed types and its size is at most 10 MiB; a type outside the list
  gives \<open>valid: false\<close> with the type error, and an allowed type above 10 MiB gives
  \<open>valid: false\<close> with the size error. The function is total: it returns a value for
  every file.
\<close>

theorem validateImageFile_accepts_allowed_types_up_to_10MiB:
  "(valid (validateImageFile file) \<longleftrightarrow>
      type_mime file \<in> {''image/jpeg'', ''image/jpg'', ''image/png'', ''image/webp'',
                         ''image/gif'', ''image/bmp'', ''image/tiff'', ''image/avif'',
                         ''image/svg+xml'', ''image/x-icon''} \<and>
      size_bytes file \<le> 10 * 1024 * 1024) \<and>
   (valid (validateImageFile file) \<longrightarrow> validateImageFile file = \<lparr>valid = True, error = None\<rparr>) \<and>
   (type_mime file \<notin> set allowedTypes \<longrightarrow>
      validateImageFile file =
        \<lparr>valid = False,
         error = Some ''Please select a valid image file (JPEG, PNG, WebP, GIF, BMP, TIFF)''\<rparr>) \<and>
   (type_mime file \<in> set allowedTypes \<and> size_bytes file > 10 * 1024 * 1024 \<longrightarrow>
      validateImageFile file =
        \<lparr>valid = False, error = Some ''File size must be less than 10MB''\<rparr>)"
  by (auto simp: validateImageFile_def allowedTypes_def maxFileSize_def)

text \<open>
  \<open>application/pdf\<close> is refused for its type, \<open>image/png\<close> of 11 MiB for its size, and
  \<open>image/webp\<close> of 1024 bytes is accepted.
\<close>

theorem validateImageFile_accepts_allowed_types_up_to_10MiB_witness:
  "validateImageFile \<lparr>name = ''doc.pdf'', size_bytes = 1024, type_mime = ''application/pdf''\<rparr> =
     \<lparr>valid = False,
      error = Some ''Please select a valid image file (JPEG, PNG, WebP, GIF, BMP, TIFF)''\<rparr> \<and>
   validateImageFile
     \<lparr>name = ''big.png'', size_bytes = 11 * 1024 * 1024, type_mime = ''image/png''\<rparr> =
     \<lparr>valid = False, error = Some ''File size must be less than 10MB''\<rparr> \<and>
   validateImageFile \<lparr>name = ''small.webp'', size_bytes = 1024, type_mime = ''image/webp''\<rparr> =
     \<lparr>valid = True, error = None\<rparr>"
  using validateImageFile_accepts_allowed_types_up_to_10MiB
          [of "\<lparr>name = ''doc.pdf'', size_bytes = 1024, type_mime = ''application/pdf''\<rparr>"]
        validateImageFile_accepts_allowed_types_up_to_10MiB
          [of "\<lparr>name = ''big.png'', size_bytes = 11 * 1024 * 1024, type_mime = ''image/png''\<rparr>"]
        validateImageFile_accepts_allowed_types_up_to_10MiB
          [of "\<lparr>name = ''small.webp'', size_bytes = 1024, type_mime = ''image/webp''\<rparr>"]
  by (simp add: allowedTypes_def)

section \<open>Properties of the filter compositor\<close>

lemma Number_toString_examples:
  "Number_toString P (Num 120) = ''120''" "Number_toString P (Num (- 1)) = ''-1''"
  "Number_toString P (Num 0) = ''0''" "Number_toString P (Num 90) = ''90''"
  "Number_toString P (Num 150) = ''150''" "Number_toString P (Num 2) = ''2''"
  "Number_toString P (Num (1 / 2)) = shortest_decimal P (1 / 2)"
  "Number_toString P (Num (10 ^ 21)) = shortest_decimal P (10 ^ 21)"
  by (simp_all add: digit_char_def)

lemma strict_not_equal_Num:
  "v \<noteq> 0 \<Longrightarrow> strict_not_equal a (Num v) = (a \<noteq> Num v)"
  by (cases a) (auto simp: strict_not_equal_def strict_equal_def is_zero_def)

lemma js_greater_zero:
  "js_greater a (Num 0) = (a = Infinity \<or> (is_finite a \<and> 0 < value_of a))"
  by (cases a) (auto simp: js_greater_def js_less_def)

lemma not_negative_blur:
  assumes "js_less_equal (Num 0) a"
  shows "strict_not_equal a (Num 0) = js_greater a (Num 0)"
  using assms
  by (cases a)
    (auto simp: js_less_equal_def js_greater_def js_less_def strict_not_equal_def
      strict_equal_def is_zero_def)

lemma switch_is_preset_functions:
  "(if preset = ''grayscale'' then push fs [''grayscale(100%)'']
    else if preset = ''sepia'' then push fs [''sepia(100%)'']
    else if preset = ''vintage''
      then push fs [''sepia(50%)'', ''contrast(120%)'', ''brightness(90%)'']
    else if preset = ''cool''
      then push fs [''hue-rotate(180deg)'', ''saturate(120%)'']
    else if preset = ''warm''
      then push fs [''hue-rotate(30deg)'', ''saturate(110%)'', ''brightness(110%)'']
    else if preset = ''noir''
      then push fs [''grayscale(100%)'', ''contrast(150%)'', ''brightness(80%)'']
    else if preset = ''vivid''
      then push fs [''saturate(150%)'', ''contrast(110%)'', ''brightness(105%)'']
    else fs) = fs @ preset_functions preset"
  by (simp add: preset_functions_def push_def)

lemma filter_chain_eq:
  "filter_chain P options =
     (if strict_not_equal (brightness options) (Num 100)
      then [''brightness('' @ Number_toString P (brightness options) @ ''%)''] else []) @
     (if strict_not_equal (contrast options) (Num 100)
      then [''contrast('' @ Number_toString P (contrast options) @ ''%)''] else []) @
     (if strict_not_equal (saturation options) (Num 100)
      then [''saturate('' @ Number_toString P (saturation options) @ ''%)''] else []) @
     (if js_greater (blur options) (Num 0)
      then [''blur('' @ Number_toString P (blur options) @ ''px)''] else []) @
     preset_functions (filter_name options)"
  unfolding filter_chain_def Let_def switch_is_preset_functions
  by (simp add: push_def)

text \<open>
  Claim C7, as the code has it. For every FilterOptions input (any numbers), the chain is
  \<open>brightness(b%)\<close> if \<open>b !== 100\<close>, then \<open>contrast(c%)\<close> if \<open>c !== 100\<close>, then
  \<open>saturate(s%)\<close> if \<open>s !== 100\<close>, then \<open>blur(kpx)\<close> if \<open>k > 0\<close>, then the functions of
  the named preset as the table gives them; the element's filter is the chain joined by
  single spaces. For \<open>k >= 0\<close> this is the chain as specified, with the blur included
  when \<open>k !== 0\<close>.
\<close>

theorem filter_chain_is_specified_chain_for_blur_from_0:
  "filter_chain P options =
     (if strict_not_equal (brightness options) (Num 100)
      then [''brightness('' @ Number_toString P (brightness options) @ ''%)''] else []) @
     (if strict_not_equal (contrast options) (Num 100)
      then [''contrast('' @ Number_toString P (contrast options) @ ''%)''] else []) @
     (if strict_not_equal (saturation options) (Num 100)
      then [''saturate('' @ Number_toString P (saturation options) @ ''%)''] else []) @
     (if js_greater (blur options) (Num 0)
      then [''blur('' @ Number_toString P (blur options) @ ''px)''] else []) @
     preset_functions (filter_name options) \<and>
   (js_less_equal (Num 0) (blur options) \<longrightarrow>
      filter_chain P options = specified_filter_chain P options) \<and>
   style_filter (applyFilters P element options) = join '' '' (filter_chain P options)"
  by (auto simp: filter_chain_eq specified_filter_chain_def applyFilters_def not_negative_blur)

theorem filter_chain_is_specified_chain_for_blur_from_0_witness:
  "filter_chain example_platform
     \<lparr>brightness = Num 90, contrast = Num 100, saturation = Num 150, blur = Num 2,
      filter_name = ''cool''\<rparr> =
     [''brightness(90%)'', ''saturate(150%)'', ''blur(2px)'', ''hue-rotate(180deg)'',
      ''saturate(120%)''] \<and>
   specified_filter_chain example_platform
     \<lparr>brightness = Num 90, contrast = Num 100, saturation = Num 150, blur = Num 2,
      filter_name = ''cool''\<rparr> =
     [''brightness(90%)'', ''saturate(150%)'', ''blur(2px)'', ''hue-rotate(180deg)'',
      ''saturate(120%)''] \<and>
   style_filter (applyFilters example_platform \<lparr>style_filter = ''sepia(100%)''\<rparr>
       \<lparr>brightness = Num 90, contrast = Num 100, saturation = Num 150, blur = Num 2,
        filter_name = ''cool''\<rparr>) =
     ''brightness(90%) saturate(150%) blur(2px) hue-rotate(180deg) saturate(120%)''"
proof -
  let ?o = "\<lparr>brightness = Num 90, contrast = Num 100, saturation = Num 150, blur = Num 2,
             filter_name = ''cool''\<rparr>"
  note t = filter_chain_is_specified_chain_for_blur_from_0
    [of example_platform ?o "\<lparr>style_filter = ''sepia(100%)''\<rparr>"]
  have b: "js_less_equal (Num 0) (blur ?o)"
    by (simp add: js_less_equal_def js_less_def)
  have c: "filter_chain example_platform ?o =
     [''brightness(90%)'', ''saturate(150%)'', ''blur(2px)'', ''hue-rotate(180deg)'',
      ''saturate(120%)'']"
    by (subst t [THEN conjunct1])
      (simp add: strict_not_equal_Num js_greater_zero digit_char_def preset_functions_def)
  have s: "filter_chain example_platform ?o = specified_filter_chain example_platform ?o"
    using t [THEN conjunct2, THEN conjunct1] b by (rule mp)
  have a: "style_filter (applyFilters example_platform \<lparr>style_filter = ''sepia(100%)''\<rparr> ?o) =
      join '' '' (filter_chain example_platform ?o)"
    by (rule t [THEN conjunct2, THEN conjunct2])
  show ?thesis
    unfolding a s [symmetric] c by simp
qed

text \<open>
  The claim as stated includes \<open>blur(kpx)\<close> whenever \<open>k \<noteq> 0\<close>. For \<open>k = -1\<close>, and for
  \<open>k = NaN\<close>, the code adds no blur, since its test is \<open>options.blur > 0\<close>.
\<close>

theorem filter_chain_omits_negative_blur:
  "filter_chain example_platform
     \<lparr>brightness = Num 100, contrast = Num 100, saturation = Num 100, blur = Num (- 1),
      filter_name = ''none''\<rparr> = [] \<and>
   specified_filter_chain example_platform
     \<lparr>brightness = Num 100, contrast = Num 100, saturation = Num 100, blur = Num (- 1),
      filter_name = ''none''\<rparr> = [''blur(-1px)''] \<and>
   filter_chain example_platform
     \<lparr>brightness = Num 100, contrast = Num 100, saturation = Num 100, blur = NaN,
      filter_name = ''none''\<rparr> = [] \<and>
   specified_filter_chain example_platform
     \<lparr>brightness = Num 100, contrast = Num 100, saturation = Num 100, blur = NaN,
      filter_name = ''none''\<rparr> = [''blur(NaNpx)'']"
  by (simp add: filter_chain_eq specified_filter_chain_def preset_functions_def
      strict_not_equal_def strict_equal_def is_zero_def js_greater_zero digit_char_def)

text \<open>
  Claim C10. With brightness, contrast and saturation at 100, a blur of at most 0 and a
  filter name that is none of the seven presets (\<open>none\<close>, the empty string or any other
  string), the chain is empty and \<open>applyFilters\<close> assigns the empty string as the
  element's filter, whatever filter the element had before. The function is total, so
  an unknown preset name raises nothing; it adds no function to the chain.
\<close>

theorem applyFilters_neutral_options_clear_filter:
  assumes "brightness options = Num 100" and "contrast options = Num 100"
    and "saturation options = Num 100" and "js_less_equal (blur options) (Num 0)"
    and "filter_name options \<notin>
           {''grayscale'', ''sepia'', ''vintage'', ''cool'', ''warm'', ''noir'', ''vivid''}"
  shows "filter_chain P options = [] \<and> style_filter (applyFilters P element options) = []"
proof -
  have "\<not> js_greater (blur options) (Num 0)"
    using assms(4)
    by (cases "blur options")
      (auto simp: js_less_equal_def js_greater_def js_less_def strict_equal_def is_zero_def)
  then show ?thesis
    using assms
    by (simp add: applyFilters_def filter_chain_eq preset_functions_def strict_not_equal_def
        strict_equal_def)
qed

theorem applyFilters_neutral_options_clear_filter_witness:
  "style_filter (applyFilters example_platform \<lparr>style_filter = ''sepia(100%)''\<rparr>
      \<lparr>brightness = Num 100, contrast = Num 100, saturation = Num 100, blur = Num 0,
       filter_name = ''none''\<rparr>) = [] \<and>
   style_filter (applyFilters example_platform \<lparr>style_filter = ''sepia(100%)''\<rparr>
      \<lparr>brightness = Num 100, contrast = Num 100, saturation = Num 100, blur = Num (- 3),
       filter_name = ''sparkle''\<rparr>) = [] \<and>
   style_filter (applyFilters example_platform \<lparr>style_filter = ''sepia(100%)''\<rparr>
      \<lparr>brightness = Num 100, contrast = Num 100, saturation = Num 100, blur = Num 0,
       filter_name = []\<rparr>) = []"
proof -
  have le: "js_less_equal (Num 0) (Num 0)" "js_less_equal (Num (- 3)) (Num 0)"
    by (simp_all add: js_less_equal_def js_less_def strict_equal_def)
  have "style_filter (applyFilters example_platform \<lparr>style_filter = ''sepia(100%)''\<rparr>
      \<lparr>brightness = Num 100, contrast = Num 100, saturation = Num 100, blur = Num 0,
       filter_name = ''none''\<rparr>) = []"
    using applyFilters_neutral_options_clear_filter
      [of "\<lparr>brightness = Num 100, contrast = Num 100, saturation = Num 100, blur = Num 0,
            filter_name = ''none''\<rparr>" example_platform "\<lparr>style_filter = ''sepia(100%)''\<rparr>"]
    by (simp add: le)
  moreover have "style_filter (applyFilters example_platform \<lparr>style_filter = ''sepia(100%)''\<rparr>
      \<lparr>brightness = Num 100, contrast = Num 100, saturation = Num 100, blur = Num (- 3),
       filter_name = ''sparkle''\<rparr>) = []"
    using applyFilters_neutral_options_clear_filter
      [of "\<lparr>brightness = Num 100, contrast = Num 100, saturation = Num 100, blur = Num (- 3),
            filter_name = ''sparkle''\<rparr>" example_platform "\<lparr>style_filter = ''sepia(100%)''\<rparr>"]
    by (simp add: le)
  moreover have "style_filter (applyFilters example_platform \<lparr>style_filter = ''sepia(100%)''\<rparr>
      \<lparr>brightness = Num 100, contrast = Num 100, saturation = Num 100, blur = Num 0,
       filter_name = []\<rparr>) = []"
    using applyFilters_neutral_options_clear_filter
      [of "\<lparr>brightness = Num 100, contrast = Num 100, saturation = Num 100, blur = Num 0,
            filter_name = []\<rparr>" example_platform "\<lparr>style_filter = ''sepia(100%)''\<rparr>"]
    by (simp add: le)
  ultimately show ?thesis by simp
qed

end
